theory Spec2Isabelle
  imports
    Complex_Main
    "HOL-Library.Sublist"
    "HOL-Library.Char_ord"
    "HOL-Library.List_Lexorder"
    "HOL-Library.Product_Lexorder"
begin

section \<open>Text and numbers of the host language\<close>

text \<open>
  A \<open>string\<close> stands for a JavaScript string whose code units are all below 256: one
  \<open>char\<close> is one code unit. Every operation below maps such strings to such strings.
  The white space of \<open>trim\<close>, of the regular-expression class \<open>\s\<close> and of
  \<open>parseFloat\<close> is, in this range, TAB, LF, VT, FF, CR, SPACE and NBSP.
\<close>

definition is_space :: "char \<Rightarrow> bool" where
  "is_space c = (c = CHR 0x09 \<or> c = CHR 0x0A \<or> c = CHR 0x0B \<or> c = CHR 0x0C
                 \<or> c = CHR 0x0D \<or> c = CHR 0x20 \<or> c = CHR 0xA0)"

definition trim :: "string \<Rightarrow> string" where
  "trim s = rev (dropWhile is_space (rev (dropWhile is_space s)))"

definition is_upper :: "char \<Rightarrow> bool" where
  "is_upper c = (CHR ''A'' \<le> c \<and> c \<le> CHR ''Z'')"

definition is_lower :: "char \<Rightarrow> bool" where
  "is_lower c = (CHR ''a'' \<le> c \<and> c \<le> CHR ''z'')"

definition to_lower :: "char \<Rightarrow> char" where
  "to_lower c = (if is_upper c then char_of (of_char c + (32::nat)) else c)"

text \<open>
  \<open>toUpperCase\<close> on a string of one code unit. Below 256 the letters with an upper
  case are a to z and 0xE0 to 0xFE without the division sign 0xF7, each 32 above its
  upper case; the sharp s 0xDF becomes \<open>SS\<close>; the micro sign 0xB5 and the y with
  diaeresis 0xFF have their upper case above 255, which no \<open>string\<close> holds: the result
  is \<open>None\<close> there.
\<close>

definition toUpperCase_char :: "char \<Rightarrow> string option" where
  "toUpperCase_char c =
     (if is_lower c then Some [char_of (of_char c - (32::nat))]
      else if c = CHR 0xDF then Some ''SS''
      else if c = CHR 0xB5 \<or> c = CHR 0xFF then None
      else if CHR 0xE0 \<le> c \<and> c \<le> CHR 0xFE \<and> c \<noteq> CHR 0xF7
        then Some [char_of (of_char c - (32::nat))]
      else Some [c])"

text \<open>\<open>xs.join(sep)\<close> on an array of strings.\<close>

fun join :: "string \<Rightarrow> string list \<Rightarrow> string" where
  "join sep [] = []"
| "join sep [x] = x"
| "join sep (x # y # ys) = x @ sep @ join sep (y # ys)"

text \<open>\<open>s.endsWith(t)\<close>.\<close>

definition endsWith :: "string \<Rightarrow> string \<Rightarrow> bool" where
  "endsWith s t = suffix t s"

subsection \<open>Numbers\<close>

text \<open>
  A JavaScript number that is not NaN. NaN is the \<open>None\<close> of a \<open>jsnum option\<close>
  where a primitive can produce it. A finite number is kept as the exact rational it
  denotes: rounding inside the range of binary64 is not part of the model. Leaving the
  range is: \<open>to_number\<close> is the number that a decimal literal of the given value
  denotes. From \<open>2^1024 - 2^970\<close> on, half a step above the largest finite number, it
  is an infinity; up to \<open>2^-1075\<close>, half the smallest positive number, it is zero.
\<close>

datatype jsnum = Fin rat | PosInf | NegInf

definition MAX_ROUND :: rat where
  "MAX_ROUND = 2 ^ 1024 - 2 ^ 970"

definition MIN_ROUND :: rat where
  "MIN_ROUND = 1 / 2 ^ 1075"

definition to_number :: "rat \<Rightarrow> jsnum" where
  "to_number v =
     (if MAX_ROUND \<le> \<bar>v\<bar> then (if v < 0 then NegInf else PosInf)
      else if \<bar>v\<bar> \<le> MIN_ROUND then Fin 0
      else Fin v)"

definition isFinite :: "jsnum option \<Rightarrow> bool" where
  "isFinite n = (case n of Some (Fin r) \<Rightarrow> True | _ \<Rightarrow> False)"

definition isNaN :: "jsnum option \<Rightarrow> bool" where
  "isNaN n = (n = None)"

definition is_digit :: "char \<Rightarrow> bool" where
  "is_digit c = (CHR ''0'' \<le> c \<and> c \<le> CHR ''9'')"

definition digit_val :: "char \<Rightarrow> nat" where
  "digit_val c = of_char c - 48"

definition digits_val :: "string \<Rightarrow> nat" where
  "digits_val ds = foldl (\<lambda>a c. 10 * a + digit_val c) 0 ds"

text \<open>
  The exponent part of a decimal literal: \<open>e\<close> or \<open>E\<close>, an optional sign and at least
  one digit. Anything else is not an exponent and counts as 0: the literal ends before it.
\<close>

definition exponent_part :: "string \<Rightarrow> int" where
  "exponent_part s =
     (case s of
        [] \<Rightarrow> 0
      | c # r \<Rightarrow>
          if c = CHR ''e'' \<or> c = CHR ''E'' then
            (case r of
               [] \<Rightarrow> 0
             | d # r' \<Rightarrow>
                 if d = CHR ''-'' then
                   (if takeWhile is_digit r' = [] then 0
                    else - int (digits_val (takeWhile is_digit r')))
                 else if d = CHR ''+'' then int (digits_val (takeWhile is_digit r'))
                 else int (digits_val (takeWhile is_digit r)))
          else 0)"

definition pow10 :: "int \<Rightarrow> rat" where
  "pow10 e = (if 0 \<le> e then 10 ^ nat e else 1 / 10 ^ nat (- e))"

text \<open>
  \<open>Number.parseFloat\<close>: leading white space is skipped, then the longest prefix that is
  a decimal literal is read (sign, \<open>Infinity\<close>, digits, fraction, exponent); what
  follows it is ignored. No such prefix gives NaN. \<open>1e309\<close> reads as \<open>Infinity\<close>.
\<close>

definition unsigned_literal :: "string \<Rightarrow> rat option" where
  "unsigned_literal u =
     (let ip = takeWhile is_digit u;
          r1 = dropWhile is_digit u;
          fp = (case r1 of [] \<Rightarrow> [] | c # r \<Rightarrow> if c = CHR ''.'' then takeWhile is_digit r else []);
          r2 = (case r1 of [] \<Rightarrow> [] | c # r \<Rightarrow> if c = CHR ''.'' then dropWhile is_digit r else r1)
      in if ip = [] \<and> fp = [] then None
         else Some ((of_nat (digits_val ip) + of_nat (digits_val fp) / 10 ^ length fp)
                    * pow10 (exponent_part r2)))"

definition parseFloat :: "string \<Rightarrow> jsnum option" where
  "parseFloat s =
     (let t = dropWhile is_space s;
          neg = (case t of [] \<Rightarrow> False | c # r \<Rightarrow> c = CHR ''-'');
          u = (case t of [] \<Rightarrow> [] | c # r \<Rightarrow> if c = CHR ''-'' \<or> c = CHR ''+'' then r else t)
      in if prefix ''Infinity'' u then Some (if neg then NegInf else PosInf)
         else (case unsigned_literal u of
                 None \<Rightarrow> None
               | Some v \<Rightarrow> Some (to_number (if neg then - v else v))))"

section \<open>SVG normalizer (utils/svg)\<close>

subsection \<open>The regular expressions\<close>

text \<open>
  \<open>/KEY="([^"]+)"/\<close> at one position: the key, \<open>="\<close>, at least one character that is
  not a double quote, and a closing double quote. The result is the group.
\<close>

definition attr_here :: "string \<Rightarrow> string \<Rightarrow> string option" where
  "attr_here key s =
     (if prefix (key @ ''=\"'') s then
        (let rest = drop (length key + 2) s;
             v = takeWhile (\<lambda>c. c \<noteq> CHR 0x22) rest
         in if v \<noteq> [] \<and> dropWhile (\<lambda>c. c \<noteq> CHR 0x22) rest \<noteq> [] then Some v else None)
      else None)"

text \<open>\<open>content.match(/KEY="([^"]+)"/)?.[1]\<close>: the leftmost position that matches.\<close>

fun attr_match :: "string \<Rightarrow> string \<Rightarrow> string option" where
  "attr_match key [] = None"
| "attr_match key (c # cs) =
     (case attr_here key (c # cs) of
        Some v \<Rightarrow> Some v
      | None \<Rightarrow> attr_match key cs)"

text \<open>A literal matched under the \<open>i\<close> flag; the literal is given in lower case.\<close>

definition iprefix :: "string \<Rightarrow> string \<Rightarrow> bool" where
  "iprefix p s = prefix p (map to_lower (take (length p) s))"

text \<open>\<open>([\s\S]*?)<\/svg>\<close>: the shortest text followed by the closing tag.\<close>

fun find_close :: "string \<Rightarrow> string option" where
  "find_close [] = None"
| "find_close (c # cs) =
     (if iprefix ''</svg>'' (c # cs) then Some []
      else map_option ((#) c) (find_close cs))"

text \<open>
  \<open>/<svg[^>]*>([\s\S]*?)<\/svg>/i\<close> at one position: the opening tag runs to the first
  closing angle bracket; the group is the text up to the first closing tag after it.
\<close>

definition svg_here :: "string \<Rightarrow> string option" where
  "svg_here s =
     (if iprefix ''<svg'' s then
        (case dropWhile (\<lambda>c. c \<noteq> CHR ''>'') (drop 4 s) of
           [] \<Rightarrow> None
         | g # inner \<Rightarrow> find_close inner)
      else None)"

fun svg_match :: "string \<Rightarrow> string option" where
  "svg_match [] = None"
| "svg_match (c # cs) =
     (case svg_here (c # cs) of
        Some b \<Rightarrow> Some b
      | None \<Rightarrow> svg_match cs)"

text \<open>
  \<open>value.split(/[\s,]+/)\<close>: the pieces between maximal runs of white space and commas.
  The first argument tells whether the previous character was a separator, the second
  is the current piece, reversed.
\<close>

definition is_sep :: "char \<Rightarrow> bool" where
  "is_sep c = (is_space c \<or> c = CHR '','')"

fun split_go :: "bool \<Rightarrow> string \<Rightarrow> string \<Rightarrow> string list" where
  "split_go insep cur [] = [rev cur]"
| "split_go insep cur (c # cs) =
     (if is_sep c then
        (if insep then split_go True cur cs else rev cur # split_go True [] cs)
      else split_go False (c # cur) cs)"

definition split_ws_comma :: "string \<Rightarrow> string list" where
  "split_ws_comma s = split_go False [] s"

subsection \<open>parseSvgFile\<close>

definition DEFAULT_SVG_DIMENSION :: jsnum where
  "DEFAULT_SVG_DIMENSION = Fin 512"

record ParsedSvg =
  ps_body :: string
  ps_width :: jsnum
  ps_height :: jsnum
  ps_viewBox :: string

text \<open>\<open>parseNumericAttribute\<close>: the argument is the group of a match, if any.\<close>

definition parseNumericAttribute :: "string option \<Rightarrow> jsnum option" where
  "parseNumericAttribute v =
     (case v of
        None \<Rightarrow> None
      | Some s \<Rightarrow>
          if s = [] then None
          else (let numeric = parseFloat s in if isFinite numeric then numeric else None))"

text \<open>\<open>parseViewBoxDimensions\<close>: the pair of the optional width and height.\<close>

definition parseViewBoxDimensions :: "string \<Rightarrow> jsnum option \<times> jsnum option" where
  "parseViewBoxDimensions v =
     (let parts = map parseFloat (split_ws_comma (trim v))
      in if length parts \<noteq> 4 \<or> list_ex isNaN parts then (None, None)
         else (parts ! 2, parts ! 3))"

text \<open>\<open>a ?? b\<close> on an optional value.\<close>

definition nullish :: "'a option \<Rightarrow> 'a \<Rightarrow> 'a" where
  "nullish a b = (case a of None \<Rightarrow> b | Some x \<Rightarrow> x)"

text \<open>
  What the code can throw: reading a file, listing a directory, \<open>JSON.parse\<close> on
  text that is not JSON, and the database engine on a \<open>LIKE\<close> pattern that is too
  long.
\<close>

datatype error = ReadError | ReaddirError | JsonSyntaxError | PatternTooComplex

text \<open>
  The body of the \<open>try\<close> block. The file is given by its text, \<open>None\<close> when reading it
  fails: that is the one statement of the block that can throw.
\<close>

definition parseSvgFile_try :: "string option \<Rightarrow> error + ParsedSvg option" where
  "parseSvgFile_try file =
     (case file of
        None \<Rightarrow> Inl ReadError
      | Some content \<Rightarrow>
          (let viewBoxMatch = attr_match ''viewBox'' content;
               widthMatch = attr_match ''width'' content;
               heightMatch = attr_match ''height'' content
           in case viewBoxMatch of
                None \<Rightarrow> Inr None
              | Some vb \<Rightarrow>
                  (let body = map_option trim (svg_match content)
                   in case body of
                        None \<Rightarrow> Inr None
                      | Some b \<Rightarrow>
                          if b = [] then Inr None
                          else
                            (let viewBox = trim vb;
                                 viewBoxDimensions = parseViewBoxDimensions viewBox;
                                 w = nullish (parseNumericAttribute widthMatch)
                                       (nullish (fst viewBoxDimensions) DEFAULT_SVG_DIMENSION);
                                 h = nullish (parseNumericAttribute heightMatch)
                                       (nullish (snd viewBoxDimensions) DEFAULT_SVG_DIMENSION)
                             in Inr (Some \<lparr>ps_body = b, ps_width = w, ps_height = h,
                                            ps_viewBox = viewBox\<rparr>)))))"

text \<open>The whole function: \<open>catch { return null }\<close>.\<close>

definition parseSvgFile :: "string option \<Rightarrow> ParsedSvg option" where
  "parseSvgFile file =
     (case parseSvgFile_try file of
        Inl e \<Rightarrow> None
      | Inr r \<Rightarrow> r)"

subsection \<open>Bodies and view boxes from a metadata descriptor\<close>

datatype SvgPathData = PathString string | PathArray "string list"

record SvgData =
  sd_height :: "jsnum option"
  sd_path :: "SvgPathData option"
  sd_raw :: "string option"
  sd_viewBox :: "jsnum list option"
  sd_width :: "jsnum option"

text \<open>\<open>!s\<close> on an optional string: absent or empty.\<close>

definition falsy :: "string option \<Rightarrow> bool" where
  "falsy s = (s = None \<or> s = Some [])"

definition extractBodyFromRawSvg :: "string option \<Rightarrow> string option" where
  "extractBodyFromRawSvg raw =
     (case raw of
        None \<Rightarrow> None
      | Some r \<Rightarrow>
          if r = [] then None
          else (case svg_match r of
                  None \<Rightarrow> None
                | Some g \<Rightarrow>
                    if g = [] then None
                    else (let trimmed = trim g in if 0 < length trimmed then Some trimmed else None)))"

definition path_element :: "string \<Rightarrow> string" where
  "path_element segment = ''<path d=\"'' @ segment @ ''\" fill=\"currentColor\" />''"

definition buildSvgBody :: "SvgData \<Rightarrow> string option" where
  "buildSvgBody svgData =
     (let rawBody = extractBodyFromRawSvg (sd_raw svgData)
      in if \<not> falsy rawBody then rawBody
         else (case sd_path svgData of
                 None \<Rightarrow> None
               | Some p \<Rightarrow>
                   if p = PathString [] then None
                   else (let pathList = (case p of PathArray ps \<Rightarrow> ps | PathString q \<Rightarrow> [q]);
                             elements = map path_element
                                          (filter (\<lambda>segment. 0 < length (trim segment)) pathList)
                         in if length elements = 0 then None
                            else Some (join [CHR 0x0A] elements))))"

text \<open>
  The conversion of a number to text, in \<open>join\<close> and in template strings, is a
  floating-point primitive of the host language. The functions that print numbers take
  it as the parameter \<open>numStr\<close>, so that what is proved holds for the real conversion.
\<close>

definition formatViewBox ::
  "(jsnum \<Rightarrow> string) \<Rightarrow> SvgData \<Rightarrow> jsnum option \<Rightarrow> jsnum option \<Rightarrow> string" where
  "formatViewBox numStr svgData w h =
     (case sd_viewBox svgData of
        None \<Rightarrow>
          ''0 0 '' @ numStr (nullish w DEFAULT_SVG_DIMENSION) @ '' ''
            @ numStr (nullish h DEFAULT_SVG_DIMENSION)
      | Some vb \<Rightarrow>
          if length vb = 4 then join '' '' (map numStr vb)
          else ''0 0 '' @ numStr (nullish w DEFAULT_SVG_DIMENSION) @ '' ''
                 @ numStr (nullish h DEFAULT_SVG_DIMENSION))"

section \<open>Icon store (services/databaseService)\<close>

text \<open>
  An icon record. The field \<open>unicode\<close> can be without a value, \<open>None\<close>: the reconciler
  builds such records (\<open>undefined\<close>), the driver binds them as \<open>NULL\<close>, and a row
  read back has \<open>null\<close> there.
\<close>

record IconData =
  name :: string
  style :: string
  body :: string
  width :: jsnum
  height :: jsnum
  viewBox :: string
  unicode :: "string option"
  searchTerms :: "string list"

text \<open>
  A row of the table \<open>icons\<close>. The column \<open>unicode\<close> can be \<open>NULL\<close>; the column
  \<open>searchTerms\<close> holds JSON text. The table is the list of its rows by ascending
  \<open>id\<close>: a new row gets an \<open>id\<close> above all earlier ones and so goes to the end. A query
  with no \<open>ORDER BY\<close> returns its rows in this order.
\<close>

record Row =
  row_name :: string
  row_style :: string
  row_body :: string
  row_width :: jsnum
  row_height :: jsnum
  row_viewBox :: string
  row_unicode :: "string option"
  row_searchTerms :: string

type_synonym Database = "Row list"

definition initDatabase :: Database where
  "initDatabase = []"

subsection \<open>JSON text of a list of strings\<close>

definition hex_digit :: "nat \<Rightarrow> char" where
  "hex_digit n = (if n < 10 then char_of (48 + n) else char_of (87 + n))"

definition json_escape :: "char \<Rightarrow> string" where
  "json_escape c =
     (if c = CHR 0x22 then [CHR 0x5C, CHR 0x22]
      else if c = CHR 0x5C then [CHR 0x5C, CHR 0x5C]
      else if c = CHR 0x08 then [CHR 0x5C, CHR ''b'']
      else if c = CHR 0x0C then [CHR 0x5C, CHR ''f'']
      else if c = CHR 0x0A then [CHR 0x5C, CHR ''n'']
      else if c = CHR 0x0D then [CHR 0x5C, CHR ''r'']
      else if c = CHR 0x09 then [CHR 0x5C, CHR ''t'']
      else if (of_char c :: nat) < 32 then
        [CHR 0x5C, CHR ''u'', CHR ''0'', CHR ''0'',
         hex_digit (of_char c div 16), hex_digit (of_char c mod 16)]
      else [c])"

definition json_quote :: "string \<Rightarrow> string" where
  "json_quote s = CHR 0x22 # concat (map json_escape s) @ [CHR 0x22]"

text \<open>\<open>JSON.stringify\<close> on an array of strings.\<close>

definition JSON_stringify :: "string list \<Rightarrow> string" where
  "JSON_stringify ts = ''['' @ join '','' (map json_quote ts) @ '']''"

definition hex_val :: "char \<Rightarrow> nat option" where
  "hex_val c =
     (if is_digit c then Some (of_char c - 48)
      else if CHR ''a'' \<le> c \<and> c \<le> CHR ''f'' then Some (of_char c - 87)
      else if CHR ''A'' \<le> c \<and> c \<le> CHR ''F'' then Some (of_char c - 55)
      else None)"

text \<open>Four hexadecimal digits after \<open>\u\<close>; a code unit of 256 or more has no \<open>char\<close>.\<close>

definition unicode_escape :: "char \<Rightarrow> char \<Rightarrow> char \<Rightarrow> char \<Rightarrow> char option" where
  "unicode_escape a b c d =
     (case (hex_val a, hex_val b, hex_val c, hex_val d) of
        (Some h3, Some h2, Some h1, Some h0) \<Rightarrow>
          if h3 = 0 \<and> h2 = 0 then Some (char_of (16 * h1 + h0)) else None
      | _ \<Rightarrow> None)"

definition simple_escape :: "char \<Rightarrow> char option" where
  "simple_escape e =
     (if e = CHR 0x22 then Some (CHR 0x22)
      else if e = CHR 0x5C then Some (CHR 0x5C)
      else if e = CHR ''/'' then Some (CHR ''/'')
      else if e = CHR ''b'' then Some (CHR 0x08)
      else if e = CHR ''f'' then Some (CHR 0x0C)
      else if e = CHR ''n'' then Some (CHR 0x0A)
      else if e = CHR ''r'' then Some (CHR 0x0D)
      else if e = CHR ''t'' then Some (CHR 0x09)
      else None)"

text \<open>
  A JSON string after its opening quote: the text it denotes and what follows the
  closing quote. \<open>None\<close> is a syntax error.
\<close>

fun json_string_body :: "string \<Rightarrow> (string \<times> string) option" where
  "json_string_body [] = None"
| "json_string_body (c # cs) =
     (if c = CHR 0x22 then Some ([], cs)
      else if c = CHR 0x5C then
        (case cs of
           [] \<Rightarrow> None
         | e # r \<Rightarrow>
             if e = CHR ''u'' then
               (case r of
                  h3 # h2 # h1 # h0 # r' \<Rightarrow>
                    (case unicode_escape h3 h2 h1 h0 of
                       None \<Rightarrow> None
                     | Some x \<Rightarrow> map_option (\<lambda>(t, rest). (x # t, rest)) (json_string_body r'))
                | _ \<Rightarrow> None)
             else
               (case simple_escape e of
                  None \<Rightarrow> None
                | Some x \<Rightarrow> map_option (\<lambda>(t, rest). (x # t, rest)) (json_string_body r)))
      else if (of_char c :: nat) < 32 then None
      else map_option (\<lambda>(t, rest). (c # t, rest)) (json_string_body cs))"

definition json_ws :: "char \<Rightarrow> bool" where
  "json_ws c = (c = CHR 0x20 \<or> c = CHR 0x09 \<or> c = CHR 0x0A \<or> c = CHR 0x0D)"

definition skip_ws :: "string \<Rightarrow> string" where
  "skip_ws s = dropWhile json_ws s"

lemma json_string_body_shorter:
  "json_string_body s = Some (t, rest) \<Longrightarrow> length rest < length s"
proof (induction s arbitrary: t rest rule: json_string_body.induct)
  case 1
  then show ?case by simp
next
  case (2 c cs)
  show ?case
  proof (cases "c = CHR 0x22")
    case True
    with "2.prems" show ?thesis by simp
  next
    case notq: False
    show ?thesis
    proof (cases "c = CHR 0x5C")
      case False
      with notq "2.prems" "2.IH"(3) show ?thesis
        by (fastforce split: if_splits)
    next
      case True
      with notq "2.prems" obtain e r where cs: "cs = e # r"
        by (cases cs) auto
      show ?thesis
      proof (cases "e = CHR ''u''")
        case False
        with notq True cs "2.prems" "2.IH"(2) show ?thesis
          by (fastforce split: option.splits)
      next
        case u: True
        with notq True cs "2.prems" obtain h3 h2 h1 h0 r' where r: "r = h3 # h2 # h1 # h0 # r'"
          by (auto split: list.splits)
        with notq True cs u "2.prems" "2.IH"(1) show ?thesis
          by (fastforce split: option.splits)
      qed
    qed
  qed
qed

lemma skip_ws_length: "length (skip_ws s) \<le> length s"
  by (simp add: skip_ws_def length_dropWhile_le)

text \<open>
  The rest of a JSON array after an element and the white space behind it: the closing
  bracket, or a comma and a further string.
\<close>

function json_items :: "string \<Rightarrow> (string list \<times> string) option" where
  "json_items s =
     (case s of
        [] \<Rightarrow> None
      | c # r \<Rightarrow>
          if c = CHR '']'' then Some ([], r)
          else if c = CHR '','' then
            (case skip_ws r of
               [] \<Rightarrow> None
             | q # r1 \<Rightarrow>
                 if q = CHR 0x22 then
                   (case json_string_body r1 of
                      None \<Rightarrow> None
                    | Some (t, r2) \<Rightarrow>
                        map_option (\<lambda>(ts, rest). (t # ts, rest)) (json_items (skip_ws r2)))
                 else None)
          else None)"
  by pat_completeness auto
termination
proof (relation "measure length", goal_cases)
  case 1
  show ?case by simp
next
  case (2 s c r q r1 x t r2)
  have "length (skip_ws r2) \<le> length r2" by (rule skip_ws_length)
  moreover from 2 have "length r2 < length r1"
    using json_string_body_shorter by auto
  moreover from 2 have "length r1 < length (skip_ws r)" by simp
  moreover have "length (skip_ws r) \<le> length r" by (rule skip_ws_length)
  moreover from 2 have "length r < length s" by simp
  ultimately show ?case by simp
qed

declare json_items.simps [simp del]

text \<open>
  \<open>JSON.parse\<close> where the text is an array of strings. \<open>None\<close> is a syntax error, or
  a JSON value of another shape, which the column never holds.
\<close>

definition JSON_parse :: "string \<Rightarrow> string list option" where
  "JSON_parse s =
     (case skip_ws s of
        [] \<Rightarrow> None
      | c # r \<Rightarrow>
          if c = CHR ''['' then
            (case skip_ws r of
               [] \<Rightarrow> None
             | d # r1 \<Rightarrow>
                 if d = CHR '']'' then (if skip_ws r1 = [] then Some [] else None)
                 else if d = CHR 0x22 then
                   (case json_string_body r1 of
                      None \<Rightarrow> None
                    | Some (t, r2) \<Rightarrow>
                        (case json_items (skip_ws r2) of
                           None \<Rightarrow> None
                         | Some (ts, r3) \<Rightarrow> if skip_ws r3 = [] then Some (t # ts) else None))
                 else None)
          else None)"

subsection \<open>The operations\<close>

text \<open>
  \<open>INSERT OR REPLACE\<close>: a row with the same \<open>(name, style)\<close> violates the \<open>UNIQUE\<close>
  constraint and is deleted before the new row is added. \<open>icon_row\<close> is the row of
  the values that the statement binds. The numbers of a record are never NaN (the type
  \<open>jsnum\<close> has none) and, \<open>unicode\<close> apart, its texts always have a value, so no
  \<open>NOT NULL\<close> constraint fails and the statement has no other outcome.
\<close>

definition icon_row :: "IconData \<Rightarrow> Row" where
  "icon_row iconData =
     \<lparr>row_name = name iconData, row_style = style iconData, row_body = body iconData,
      row_width = width iconData, row_height = height iconData,
      row_viewBox = viewBox iconData, row_unicode = unicode iconData,
      row_searchTerms = JSON_stringify (searchTerms iconData)\<rparr>"

definition insertIcon :: "Database \<Rightarrow> IconData \<Rightarrow> Database" where
  "insertIcon db iconData =
     filter (\<lambda>r. \<not> (row_name r = name iconData \<and> row_style r = style iconData)) db
     @ [icon_row iconData]"

text \<open>The store after a sequence of \<open>insertIcon\<close> calls on a new database.\<close>

definition populate :: "IconData list \<Rightarrow> Database" where
  "populate icons = foldl insertIcon initDatabase icons"

definition icon_key :: "IconData \<Rightarrow> string \<times> string" where
  "icon_key i = (name i, style i)"

definition row_key :: "Row \<Rightarrow> string \<times> string" where
  "row_key r = (row_name r, row_style r)"

text \<open>A record for the examples: name, style and body vary.\<close>

definition sample_icon :: "string \<Rightarrow> string \<Rightarrow> string \<Rightarrow> IconData" where
  "sample_icon n s b =
     \<lparr>name = n, style = s, body = b, width = Fin 512, height = Fin 512,
      viewBox = ''0 0 512 512'', unicode = Some ''f000'', searchTerms = []\<rparr>"

text \<open>\<open>Number.isInteger\<close>.\<close>

definition isInteger :: "jsnum \<Rightarrow> bool" where
  "isInteger n = (case n of Fin r \<Rightarrow> r = of_int \<lfloor>r\<rfloor> | _ \<Rightarrow> False)"

text \<open>\<open>SELECT DISTINCT style FROM icons ORDER BY style\<close>.\<close>

definition getAvailableStyles :: "Database \<Rightarrow> string list" where
  "getAvailableStyles db = sort (remdups (map row_style db))"

text \<open>\<open>JSON.parse(row.searchTerms || '[]')\<close>.\<close>

definition parse_terms :: "string \<Rightarrow> string list option" where
  "parse_terms txt = JSON_parse (if txt = [] then ''[]'' else txt)"

text \<open>
  \<open>SELECT ... FROM icons WHERE style = ?\<close>, then one record per row. \<open>None\<close> is the
  exception of \<open>JSON.parse\<close>.
\<close>

definition getIconsByStyle :: "Database \<Rightarrow> string \<Rightarrow> IconData list option" where
  "getIconsByStyle db st =
     (let rows = filter (\<lambda>r. row_style r = st) db
      in those (map (\<lambda>row. map_option
                      (\<lambda>ts. \<lparr>name = row_name row, style = st, body = row_body row,
                              width = row_width row, height = row_height row,
                              viewBox = row_viewBox row, unicode = row_unicode row,
                              searchTerms = ts\<rparr>)
                      (parse_terms (row_searchTerms row))) rows))"

text \<open>
  The operator \<open>LIKE\<close>: \<open>%\<close> stands for any text, \<open>_\<close> for any one character, and
  the letters A to Z match in both cases.
\<close>

fun like :: "string \<Rightarrow> string \<Rightarrow> bool" where
  "like [] s = (s = [])"
| "like (p # ps) [] = (p = CHR ''%'' \<and> like ps [])"
| "like (p # ps) (c # cs) =
     (if p = CHR ''%'' then like ps (c # cs) \<or> like (p # ps) cs
      else (p = CHR ''_'' \<or> to_lower p = to_lower c) \<and> like ps cs)"

text \<open>
  The engine compares the pattern and the text as C strings: each ends before its first
  NUL character.
\<close>

definition c_string :: "string \<Rightarrow> string" where
  "c_string s = takeWhile (\<lambda>c. c \<noteq> CHR 0x00) s"

definition like_op :: "string \<Rightarrow> string \<Rightarrow> bool" where
  "like_op pat s = like (c_string pat) (c_string s)"

text \<open>
  The engine refuses a pattern of more than 50000 bytes, each time it is about to
  compare it with a text. The pattern is bound as UTF-8 text: one byte for a code unit
  below 128 and two for the others.
\<close>

definition SQLITE_MAX_LIKE_PATTERN_LENGTH :: int where
  "SQLITE_MAX_LIKE_PATTERN_LENGTH = 50000"

definition utf8_length :: "string \<Rightarrow> int" where
  "utf8_length s = sum_list (map (\<lambda>c. if (of_char c :: nat) < 128 then 1 else 2) s)"

text \<open>
  \<open>SELECT * FROM icons WHERE (name LIKE ? OR searchTerms LIKE ?) [AND style IN (...)]
  ORDER BY name, style\<close>, both patterns being \<open>%query%\<close>. The rows that the
  statement tests with \<open>LIKE\<close> are all rows, or with a style list that is not empty
  the rows of these styles, which the engine finds through the index on \<open>style\<close>. If
  there is such a row and the pattern is too long, the statement throws. Otherwise the
  rows that match are sorted, and each becomes a record; \<open>JSON.parse\<close> can throw there.
\<close>

definition searchIcons :: "Database \<Rightarrow> string \<Rightarrow> string list option \<Rightarrow> error + IconData list" where
  "searchIcons db query styles =
     (let pat = ''%'' @ query @ ''%'';
          tested = filter (\<lambda>r. case styles of
                                   None \<Rightarrow> True
                                 | Some ss \<Rightarrow> \<not> 0 < length ss \<or> row_style r \<in> set ss) db
      in if tested \<noteq> [] \<and> SQLITE_MAX_LIKE_PATTERN_LENGTH < utf8_length pat
         then Inl PatternTooComplex
         else
           (let rows = sort_key (\<lambda>r. (row_name r, row_style r))
                         (filter (\<lambda>r. like_op pat (row_name r) \<or> like_op pat (row_searchTerms r))
                            tested)
            in case those (map (\<lambda>row. map_option
                      (\<lambda>ts. \<lparr>name = row_name row, style = row_style row, body = row_body row,
                              width = row_width row, height = row_height row,
                              viewBox = row_viewBox row, unicode = row_unicode row,
                              searchTerms = ts\<rparr>)
                      (parse_terms (row_searchTerms row))) rows) of
                 None \<Rightarrow> Inl JsonSyntaxError
               | Some icons \<Rightarrow> Inr icons))"

section \<open>Icon reconciler (services/kitParserService)\<close>

text \<open>
  An object used as a dictionary (\<open>FontAwesomeMetadata\<close>, \<open>Record<string, SvgData>\<close>,
  the icon sets of the export) is created by \<open>{}\<close> or by \<open>JSON.parse\<close>: it is the map
  of its own properties, and its prototype is \<open>Object.prototype\<close>. Reading \<open>obj[key]\<close>
  gives the own property if there is one; otherwise, for the twelve names below, the
  property of \<open>Object.prototype\<close>, a function or an object and so truthy, with none of
  the fields that the code reads from an entry; otherwise \<open>undefined\<close>.
\<close>

definition object_prototype_names :: "string list" where
  "object_prototype_names =
     [''constructor'', ''toString'', ''toLocaleString'', ''valueOf'', ''hasOwnProperty'',
      ''isPrototypeOf'', ''propertyIsEnumerable'', ''__defineGetter__'', ''__defineSetter__'',
      ''__lookupGetter__'', ''__lookupSetter__'', ''__proto__'']"

datatype 'a property = Own 'a | Inherited | Absent

definition get_property :: "(string \<rightharpoonup> 'a) \<Rightarrow> string \<Rightarrow> 'a property" where
  "get_property obj key =
     (case obj key of
        Some v \<Rightarrow> Own v
      | None \<Rightarrow> if key \<in> set object_prototype_names then Inherited else Absent)"

text \<open>\<open>!v\<close> on a value read from such an object, the own properties being objects.\<close>

definition no_value :: "'a property \<Rightarrow> bool" where
  "no_value p = (case p of Absent \<Rightarrow> True | _ \<Rightarrow> False)"

text \<open>
  Writing \<open>obj[key] = value\<close> adds or replaces an own property, except for the key
  \<open>__proto__\<close>: that is the accessor of \<open>Object.prototype\<close>, and the assignment of an
  object replaces the prototype of \<open>obj\<close> and adds no property.
\<close>

definition set_property :: "(string \<rightharpoonup> 'a) \<Rightarrow> string \<Rightarrow> 'a \<Rightarrow> (string \<rightharpoonup> 'a)" where
  "set_property obj key v = (if key = ''__proto__'' then obj else obj(key \<mapsto> v))"

text \<open>
  Of a metadata entry, the fields that \<open>parseKit\<close> reads; \<open>fa_svg\<close> is the map of the
  own properties of \<open>icon.svg\<close>, the empty map for an entry that has no \<open>svg\<close>. For
  such an entry \<open>icon.svg?.[style]\<close> is \<open>undefined\<close> for every style, where the model
  has the inherited value for the twelve names; the record is the same in both cases
  (lemma \<open>parseKit_icon_no_descriptor\<close>).
\<close>

record Search =
  search_terms :: "string list option"

record FontAwesomeIcon =
  fa_search :: "Search option"
  fa_svg :: "string \<rightharpoonup> SvgData"
  fa_unicode :: string

definition DEFAULT_ICON_SIZE :: jsnum where
  "DEFAULT_ICON_SIZE = Fin 512"

definition deriveDimensions :: "SvgData option \<Rightarrow> jsnum \<times> jsnum" where
  "deriveDimensions svgData =
     (case svgData of
        None \<Rightarrow> (DEFAULT_ICON_SIZE, DEFAULT_ICON_SIZE)
      | Some sd \<Rightarrow>
          (let vb = (case sd_viewBox sd of
                       None \<Rightarrow> (None, None)
                     | Some v \<Rightarrow> if length v = 4 then (Some (v ! 2), Some (v ! 3)) else (None, None));
               w = nullish (sd_width sd) (nullish (fst vb) DEFAULT_ICON_SIZE);
               h = nullish (sd_height sd) (nullish (snd vb) DEFAULT_ICON_SIZE)
           in (w, h)))"

text \<open>\<open>basename(path, ext)\<close> on a file name with no directory part.\<close>

definition basename :: "string \<Rightarrow> string \<Rightarrow> string" where
  "basename path ext =
     (if ext \<noteq> [] \<and> suffix ext path then take (length path - length ext) path else path)"

text \<open>
  An inherited property read as a descriptor: none of the five fields has a value.
\<close>

definition inherited_descriptor :: SvgData where
  "inherited_descriptor =
     \<lparr>sd_height = None, sd_path = None, sd_raw = None, sd_viewBox = None, sd_width = None\<rparr>"

text \<open>
  The body of the inner loop of \<open>parseKit\<close>, for the file \<open>svgFile\<close> of the directory
  of \<open>style\<close>; \<open>text\<close> is the content of the file, \<open>None\<close> when it cannot be read. The
  result is the record handed to \<open>insertIcon\<close>, \<open>None\<close> where the loop continues
  without one. \<open>metadata\<close> is the map of the own properties of the metadata object.
  \<open>metadata[iconName]\<close> is falsy only where it is \<open>undefined\<close>. An inherited value
  has no \<open>svg\<close>, no \<open>unicode\<close> and no \<open>search\<close>.
\<close>

definition parseKit_icon ::
  "(jsnum \<Rightarrow> string) \<Rightarrow> (string \<rightharpoonup> FontAwesomeIcon) \<Rightarrow> string \<Rightarrow> string \<Rightarrow> string option
     \<Rightarrow> IconData option" where
  "parseKit_icon numStr metadata st svgFile text =
     (let iconName = basename svgFile ''.svg'';
          icon = get_property metadata iconName
      in if no_value icon then None
         else
             (let svgData = (case icon of
                               Own entry \<Rightarrow>
                                 (case get_property (fa_svg entry) st of
                                    Own sd \<Rightarrow> Some sd
                                  | Inherited \<Rightarrow> Some inherited_descriptor
                                  | Absent \<Rightarrow> None)
                             | _ \<Rightarrow> None);
                  parsedSvg = parseSvgFile text;
                  body0 = map_option ps_body parsedSvg;
                  width0 = map_option ps_width parsedSvg;
                  height0 = map_option ps_height parsedSvg;
                  viewBox0 = map_option ps_viewBox parsedSvg;
                  body1 = (case svgData of
                             None \<Rightarrow> body0
                           | Some sd \<Rightarrow> if falsy body0 then buildSvgBody sd else body0);
                  derived = deriveDimensions svgData;
                  w = nullish width0 (fst derived);
                  h = nullish height0 (snd derived);
                  viewBox1 = (if falsy viewBox0 then
                                (case svgData of
                                   Some sd \<Rightarrow> Some (formatViewBox numStr sd (Some w) (Some h))
                                 | None \<Rightarrow> Some (''0 0 '' @ numStr w @ '' '' @ numStr h))
                              else viewBox0)
              in if falsy body1 then None
                 else
                   (let resolvedWidth = nullish (Some w) DEFAULT_ICON_SIZE;
                        resolvedHeight = nullish (Some h) DEFAULT_ICON_SIZE;
                        resolvedViewBox = nullish viewBox1
                          (''0 0 '' @ numStr resolvedWidth @ '' '' @ numStr resolvedHeight)
                    in Some \<lparr>name = iconName, style = st, body = nullish body1 [],
                              width = resolvedWidth, height = resolvedHeight,
                              viewBox = resolvedViewBox,
                              unicode = (case icon of
                                           Own entry \<Rightarrow> Some (fa_unicode entry)
                                         | _ \<Rightarrow> None),
                              searchTerms =
                                (case icon of
                                   Own entry \<Rightarrow>
                                     (case fa_search entry of
                                        None \<Rightarrow> []
                                      | Some s \<Rightarrow> nullish (search_terms s) [])
                                 | _ \<Rightarrow> [])\<rparr>)))"

text \<open>The inner loop: the \<open>.svg\<close> files of one style directory, in listing order.\<close>

fun parseKit_files ::
  "(jsnum \<Rightarrow> string) \<Rightarrow> (string \<rightharpoonup> FontAwesomeIcon) \<Rightarrow> string \<Rightarrow> Database
     \<Rightarrow> (string \<times> string option) list \<Rightarrow> Database" where
  "parseKit_files numStr metadata st db [] = db"
| "parseKit_files numStr metadata st db ((svgFile, text) # rest) =
     parseKit_files numStr metadata st
       (case parseKit_icon numStr metadata st svgFile text of
          None \<Rightarrow> db
        | Some iconData \<Rightarrow> insertIcon db iconData)
       rest"

text \<open>
  An entry of the directory \<open>svgs\<close>: a directory with its listing (\<open>None\<close> when
  \<open>readdir\<close> throws on it), or something else.
\<close>

datatype dirent = Directory string "(string \<times> string option) list option" | OtherEntry string

text \<open>
  The outer loop: the subdirectories of \<open>svgs\<close>, one per style. The result is the store
  as the loop leaves it and the exception that ends it, if any: no \<open>try\<close> surrounds the
  listing of a style directory, and what was inserted before stays in the store.
\<close>

fun parseKit_styles ::
  "(jsnum \<Rightarrow> string) \<Rightarrow> (string \<rightharpoonup> FontAwesomeIcon) \<Rightarrow> Database \<Rightarrow> dirent list
     \<Rightarrow> Database \<times> error option" where
  "parseKit_styles numStr metadata db [] = (db, None)"
| "parseKit_styles numStr metadata db (OtherEntry n # rest) =
     parseKit_styles numStr metadata db rest"
| "parseKit_styles numStr metadata db (Directory st None # rest) = (db, Some ReaddirError)"
| "parseKit_styles numStr metadata db (Directory st (Some files) # rest) =
     parseKit_styles numStr metadata
       (parseKit_files numStr metadata st db
          (filter (\<lambda>f. endsWith (fst f) ''.svg'') files))
       rest"

text \<open>
  The kit on disk: the object that \<open>metadata/icons.json\<close> holds, as the map of its own
  properties (\<open>None\<close> when \<open>readJsonFile\<close> gives \<open>null\<close>), and the listing of \<open>svgs\<close>
  (\<open>None\<close> when \<open>readdir\<close> throws).
\<close>

record Kit =
  icons_json :: "(string \<rightharpoonup> FontAwesomeIcon) option"
  svgs_dir :: "dirent list option"

text \<open>
  \<open>parseKit\<close>: the store as the call leaves it, and the metadata that it returns or
  the exception that it throws. \<open>Object.assign(metadata, iconsMetadata)\<close> writes every
  own property of the document to the new object \<open>metadata\<close>. For a document with an own
  property \<open>__proto__\<close> that replaces the prototype of \<open>metadata\<close> by the entry, and the
  look-ups of the loop then reach the fields of that entry: the model does not follow
  the code there, and the result is \<open>None\<close>.
\<close>

definition parseKit ::
  "(jsnum \<Rightarrow> string) \<Rightarrow> Database \<Rightarrow> Kit
     \<Rightarrow> (Database \<times> (error + (string \<rightharpoonup> FontAwesomeIcon))) option" where
  "parseKit numStr db kit =
     (let metadata = (case icons_json kit of None \<Rightarrow> Map.empty | Some iconsMetadata \<Rightarrow> iconsMetadata)
      in if metadata ''__proto__'' \<noteq> None then None
         else
           (case svgs_dir kit of
              None \<Rightarrow> Some (db, Inl ReaddirError)
            | Some svgEntries \<Rightarrow>
                (case parseKit_styles numStr metadata db svgEntries of
                   (db', None) \<Rightarrow> Some (db', Inr metadata)
                 | (db', Some e) \<Rightarrow> Some (db', Inl e))))"

text \<open>
  Metadata for the examples: one icon, \<open>bell\<close>, with the given descriptor for the style
  \<open>solid\<close>.
\<close>

definition sample_metadata :: "SvgData \<Rightarrow> (string \<rightharpoonup> FontAwesomeIcon)" where
  "sample_metadata sd =
     [''bell'' \<mapsto> \<lparr>fa_search = Some \<lparr>search_terms = Some [''alarm'']\<rparr>,
                    fa_svg = [''solid'' \<mapsto> sd], fa_unicode = ''f0f3''\<rparr>]"

definition sample_descriptor :: SvgData where
  "sample_descriptor =
     \<lparr>sd_height = None, sd_path = Some (PathArray [''M0 0h10v10H0z'', ''M1 1h2v2H1z'']),
      sd_raw = None, sd_viewBox = Some [Fin 0, Fin 0, Fin 10, Fin 10], sd_width = None\<rparr>"

section \<open>Export assembler (generatePackage of the command-line script)\<close>

record IconifyIcon =
  ic_body :: string
  ic_width :: jsnum
  ic_height :: jsnum
  ic_left :: jsnum
  ic_top :: jsnum
  ic_rotate :: jsnum
  ic_vFlip :: bool
  ic_hFlip :: bool

record Info =
  info_name :: "string option"
  info_total :: nat
  info_version :: string
  info_author_name :: string
  info_license_title :: string
  info_license_spdx :: string

record StyleIconSet =
  set_prefix :: string
  set_icons :: "string \<rightharpoonup> IconifyIcon"
  set_width :: jsnum
  set_height :: jsnum
  set_info :: Info

record KitConfig =
  cfg_name :: string
  cfg_version :: string
  cfg_description :: string
  cfg_iconSetName :: string
  cfg_prefix :: string
  cfg_outputDir :: string
  cfg_selectedStyles :: "string list"

text \<open>
  The script's own \<open>getIconsByStyle\<close>:
  \<open>SELECT name, body, width, height FROM icons WHERE style = ?\<close>.
\<close>

record StyleRow =
  sr_name :: string
  sr_body :: string
  sr_width :: jsnum
  sr_height :: jsnum

definition getIconsByStyle_cli :: "Database \<Rightarrow> string \<Rightarrow> StyleRow list" where
  "getIconsByStyle_cli db st =
     map (\<lambda>r. \<lparr>sr_name = row_name r, sr_body = row_body r, sr_width = row_width r,
                sr_height = row_height r\<rparr>)
       (filter (\<lambda>r. row_style r = st) db)"

text \<open>
  \<open>style.charAt(0).toUpperCase() + style.slice(1).replace(/-/g, '')\<close>; \<open>None\<close> where
  the upper case of the first code unit is above 255.
\<close>

definition styleName :: "string \<Rightarrow> string option" where
  "styleName st =
     (case st of
        [] \<Rightarrow> Some []
      | c # r \<Rightarrow> map_option (\<lambda>u. u @ filter (\<lambda>x. x \<noteq> CHR ''-'') r) (toUpperCase_char c))"

text \<open>\<open>for (const icon of icons) iconifyIcons[icon.name] = {...}\<close>.\<close>

fun iconify :: "(string \<rightharpoonup> IconifyIcon) \<Rightarrow> StyleRow list \<Rightarrow> (string \<rightharpoonup> IconifyIcon)" where
  "iconify iconifyIcons [] = iconifyIcons"
| "iconify iconifyIcons (icon # rest) =
     iconify (set_property iconifyIcons (sr_name icon)
                \<lparr>ic_body = sr_body icon, ic_width = sr_width icon, ic_height = sr_height icon,
                 ic_left = Fin 0, ic_top = Fin 0, ic_rotate = Fin 0,
                 ic_vFlip = False, ic_hFlip = False\<rparr>) rest"

text \<open>
  The object stored under \<open>styleSets[style]\<close>, for the rows of the style. The name of
  the set is \<open>None\<close> where \<open>styleName\<close> is.
\<close>

definition style_set :: "KitConfig \<Rightarrow> string \<Rightarrow> StyleRow list \<Rightarrow> StyleIconSet" where
  "style_set config st icons =
     \<lparr>set_prefix = cfg_prefix config @ ''-'' @ st,
      set_icons = iconify Map.empty icons,
      set_width = Fin 24, set_height = Fin 24,
      set_info = \<lparr>info_name = map_option (\<lambda>n. cfg_iconSetName config @ '' '' @ n) (styleName st),
                  info_total = length icons,
                  info_version = cfg_version config,
                  info_author_name = ''FontAwesome to Iconify Converter'',
                  info_license_title = ''FontAwesome Pro License'',
                  info_license_spdx = ''UNLICENSED''\<rparr>\<rparr>"

text \<open>The loop over the selected styles, with its two variables.\<close>

fun generate_styles ::
  "Database \<Rightarrow> KitConfig \<Rightarrow> string list \<Rightarrow> (string \<rightharpoonup> StyleIconSet) \<Rightarrow> nat
     \<Rightarrow> (string \<rightharpoonup> StyleIconSet) \<times> nat" where
  "generate_styles db config [] styleSets totalIcons = (styleSets, totalIcons)"
| "generate_styles db config (st # rest) styleSets totalIcons =
     (let icons = getIconsByStyle_cli db st
      in if length icons = 0 then generate_styles db config rest styleSets totalIcons
         else generate_styles db config rest
                (set_property styleSets st (style_set config st icons))
                (totalIcons + length icons))"

text \<open>
  The icon sets that \<open>generatePackage\<close> builds and the total it returns. Creating the
  output directories and writing the files are left out.
\<close>

definition generatePackage :: "Database \<Rightarrow> KitConfig \<Rightarrow> (string \<rightharpoonup> StyleIconSet) \<times> nat" where
  "generatePackage db config = generate_styles db config (cfg_selectedStyles config) Map.empty 0"

text \<open>A configuration for the examples, with the given selected styles.\<close>

definition sample_config :: "string list \<Rightarrow> KitConfig" where
  "sample_config sel =
     \<lparr>cfg_name = ''my-icons'', cfg_version = ''1.0.0'', cfg_description = ''icons'',
      cfg_iconSetName = ''FontAwesome Pro'', cfg_prefix = ''fa-pro'', cfg_outputDir = ''out'',
      cfg_selectedStyles = sel\<rparr>"

section \<open>Properties of the normalizer\<close>





lemma parseSvgFile_Some_iff:
  "parseSvgFile (Some content) = Some r \<longleftrightarrow>
     (\<exists>vb inner. attr_match ''viewBox'' content = Some vb \<and> svg_match content = Some inner
        \<and> trim inner \<noteq> []
        \<and> r = \<lparr>ps_body = trim inner,
                ps_width = nullish (parseNumericAttribute (attr_match ''width'' content))
                             (nullish (fst (parseViewBoxDimensions (trim vb))) DEFAULT_SVG_DIMENSION),
                ps_height = nullish (parseNumericAttribute (attr_match ''height'' content))
                             (nullish (snd (parseViewBoxDimensions (trim vb))) DEFAULT_SVG_DIMENSION),
                ps_viewBox = trim vb\<rparr>)"
  by (auto simp: parseSvgFile_def parseSvgFile_try_def Let_def split: option.splits)

text \<open>The definitions that evaluate the normalizer on a given text.\<close>

lemmas svg_eval = parseSvgFile_def parseSvgFile_try_def attr_here_def svg_here_def iprefix_def
  to_lower_def is_upper_def trim_def is_space_def parseViewBoxDimensions_def split_ws_comma_def
  is_sep_def parseFloat_def unsigned_literal_def is_digit_def digit_val_def digits_val_def
  exponent_part_def pow10_def nullish_def parseNumericAttribute_def isNaN_def isFinite_def
  DEFAULT_SVG_DIMENSION_def less_eq_char_def to_number_def MAX_ROUND_def MIN_ROUND_def

text \<open>
  Claim C3, where the code departs from it. The expressions for \<open>width\<close> and
  \<open>height\<close> are not tied to the \<open>svg\<close> element: they take the first \<open>width="..."\<close>
  and \<open>height="..."\<close> anywhere in the text. In the first document the \<open>svg\<close> element
  has no width and no height, and its view box gives 320 and 512; the result has the
  width and height of the \<open>rect\<close> inside, 10 and 20. In the second the width is the 3
  of \<open>stroke-width\<close>. The third is the first example of the specification, where the
  order holds: no such text, and the view box decides.
\<close>

theorem parseSvgFile_dimensions_of_inner_markup:
  "parseSvgFile (Some ''<svg viewBox=\"0 0 320 512\"><rect width=\"10\" height=\"20\"/></svg>'')
     = Some \<lparr>ps_body = ''<rect width=\"10\" height=\"20\"/>'', ps_width = Fin 10, ps_height = Fin 20,
              ps_viewBox = ''0 0 320 512''\<rparr>
   \<and> parseSvgFile (Some ''<svg viewBox=\"0 0 320 512\"><path stroke-width=\"3\" d=\"M0 0\"/></svg>'')
     = Some \<lparr>ps_body = ''<path stroke-width=\"3\" d=\"M0 0\"/>'', ps_width = Fin 3, ps_height = Fin 512,
              ps_viewBox = ''0 0 320 512''\<rparr>
   \<and> parseSvgFile (Some ''<svg viewBox=\"0 0 320 512\"><path d=\"M0 0h320v512H0z\"/></svg>'')
     = Some \<lparr>ps_body = ''<path d=\"M0 0h320v512H0z\"/>'', ps_width = Fin 320, ps_height = Fin 512,
              ps_viewBox = ''0 0 320 512''\<rparr>"
proof -
  have a: "parseSvgFile (Some ''<svg viewBox=\"0 0 320 512\"><rect width=\"10\" height=\"20\"/></svg>'')
     = Some \<lparr>ps_body = ''<rect width=\"10\" height=\"20\"/>'', ps_width = Fin 10, ps_height = Fin 20,
              ps_viewBox = ''0 0 320 512''\<rparr>"
    by (simp add: svg_eval)
  have b: "parseSvgFile (Some ''<svg viewBox=\"0 0 320 512\"><path stroke-width=\"3\" d=\"M0 0\"/></svg>'')
     = Some \<lparr>ps_body = ''<path stroke-width=\"3\" d=\"M0 0\"/>'', ps_width = Fin 3, ps_height = Fin 512,
              ps_viewBox = ''0 0 320 512''\<rparr>"
    by (simp add: svg_eval)
  have c: "parseSvgFile (Some ''<svg viewBox=\"0 0 320 512\"><path d=\"M0 0h320v512H0z\"/></svg>'')
     = Some \<lparr>ps_body = ''<path d=\"M0 0h320v512H0z\"/>'', ps_width = Fin 320, ps_height = Fin 512,
              ps_viewBox = ''0 0 320 512''\<rparr>"
    by (simp add: svg_eval)
  from a b c show ?thesis
    by (simp only: simp_thms)
qed

text \<open>
  Claim C7, where the code departs from it. The expression for the view box is not tied
  to an attribute of that name: it takes the first \<open>viewBox="..."\<close> anywhere in the
  text. Neither document below has a \<open>viewBox\<close> attribute: the first has an attribute
  \<open>data-viewBox\<close>, the second a comment. Both get a result and not \<open>null\<close>. The last
  three lines are cases where the claim holds: a file that cannot be read, a text
  without these characters, and white space between the tags.
\<close>

theorem parseSvgFile_viewBox_without_attribute:
  "parseSvgFile (Some ''<svg data-viewBox=\"0 0 1 1\"><g/></svg>'')
     = Some \<lparr>ps_body = ''<g/>'', ps_width = Fin 1, ps_height = Fin 1, ps_viewBox = ''0 0 1 1''\<rparr>
   \<and> parseSvgFile (Some ''<svg><!-- viewBox=\"0 0 1 1\" --><g/></svg>'')
     = Some \<lparr>ps_body = ''<!-- viewBox=\"0 0 1 1\" --><g/>'', ps_width = Fin 1, ps_height = Fin 1,
              ps_viewBox = ''0 0 1 1''\<rparr>
   \<and> parseSvgFile None = None
   \<and> parseSvgFile (Some ''<svg><path/></svg>'') = None
   \<and> parseSvgFile (Some ''<svg viewBox=\"0 0 1 1\"> </svg>'') = None"
proof -
  have a: "parseSvgFile (Some ''<svg data-viewBox=\"0 0 1 1\"><g/></svg>'')
     = Some \<lparr>ps_body = ''<g/>'', ps_width = Fin 1, ps_height = Fin 1, ps_viewBox = ''0 0 1 1''\<rparr>"
    by (simp add: svg_eval)
  have b: "parseSvgFile (Some ''<svg><!-- viewBox=\"0 0 1 1\" --><g/></svg>'')
     = Some \<lparr>ps_body = ''<!-- viewBox=\"0 0 1 1\" --><g/>'', ps_width = Fin 1, ps_height = Fin 1,
              ps_viewBox = ''0 0 1 1''\<rparr>"
    by (simp add: svg_eval)
  have c: "parseSvgFile None = None"
    by (simp add: parseSvgFile_def parseSvgFile_try_def)
  have d: "parseSvgFile (Some ''<svg><path/></svg>'') = None"
    by (simp add: svg_eval)
  have e: "parseSvgFile (Some ''<svg viewBox=\"0 0 1 1\"> </svg>'') = None"
    by (simp add: svg_eval)
  from a b c d e show ?thesis
    by (simp only: simp_thms)
qed

section \<open>Properties of the icon store\<close>

subsection \<open>The JSON text of the search terms reads back\<close>

lemma hex_val_hex_digit: "k < 16 \<Longrightarrow> hex_val (hex_digit k) = Some k"
proof -
  assume "k < 16"
  then have "k \<in> {0, 1, 2, 3, 4, 5, 6, 7, 8, 9, 10, 11, 12, 13, 14, 15}"
    by simp arith
  then show ?thesis
    by (auto simp: hex_digit_def hex_val_def is_digit_def less_eq_char_def)
qed

lemma unicode_escape_low:
  assumes "(of_char c :: nat) < 32"
  shows "unicode_escape (CHR ''0'') (CHR ''0'') (hex_digit (of_char c div 16)) (hex_digit (of_char c mod 16))
           = Some c"
proof -
  let ?n = "of_char c :: nat"
  have z: "hex_val (CHR ''0'') = Some 0"
    by (simp add: hex_val_def is_digit_def less_eq_char_def)
  from assms have "?n div 16 < 16" by simp
  then have h1: "hex_val (hex_digit (?n div 16)) = Some (?n div 16)"
    by (rule hex_val_hex_digit)
  have "?n mod 16 < 16" by simp
  then have h0: "hex_val (hex_digit (?n mod 16)) = Some (?n mod 16)"
    by (rule hex_val_hex_digit)
  have "char_of (16 * (?n div 16) + ?n mod 16) = c"
    by simp
  with z h1 h0 show ?thesis
    by (simp add: unicode_escape_def)
qed

lemma json_string_body_escape:
  "json_string_body (json_escape c @ rest)
     = map_option (\<lambda>(t, r). (c # t, r)) (json_string_body rest)"
proof (cases "c = CHR 0x22 \<or> c = CHR 0x5C \<or> c = CHR 0x08 \<or> c = CHR 0x0C \<or> c = CHR 0x0A
              \<or> c = CHR 0x0D \<or> c = CHR 0x09")
  case True
  then show ?thesis
    by (auto simp: json_escape_def simple_escape_def)
next
  case plain: False
  show ?thesis
  proof (cases "(of_char c :: nat) < 32")
    case True
    with plain unicode_escape_low [OF True] show ?thesis
      by (simp add: json_escape_def)
  next
    case False
    with plain show ?thesis
      by (simp add: json_escape_def)
  qed
qed

lemma json_string_body_concat:
  "json_string_body (concat (map json_escape s) @ CHR 0x22 # rest) = Some (s, rest)"
  by (induction s) (simp_all add: json_string_body_escape)

lemma skip_ws_other: "\<not> json_ws c \<Longrightarrow> skip_ws (c # r) = c # r"
  by (simp add: skip_ws_def)

lemma json_items_close: "json_items (CHR '']'' # r) = Some ([], r)"
  by (subst json_items.simps) simp

lemma json_items_comma:
  "json_items (CHR '','' # CHR 0x22 # r) =
     (case json_string_body r of
        None \<Rightarrow> None
      | Some (t, r2) \<Rightarrow> map_option (\<lambda>(ts, rest). (t # ts, rest)) (json_items (skip_ws r2)))"
  by (subst json_items.simps) (simp add: skip_ws_def json_ws_def)

lemma json_items_tail:
  "json_items (concat (map (\<lambda>t. CHR '','' # json_quote t) ts) @ CHR '']'' # rest) = Some (ts, rest)"
proof (induction ts)
  case Nil
  show ?case by (simp add: json_items_close)
next
  case (Cons t ts)
  let ?tail = "concat (map (\<lambda>t. CHR '','' # json_quote t) ts) @ CHR '']'' # rest"
  have "skip_ws ?tail = ?tail"
    by (cases ts) (simp_all add: skip_ws_other json_ws_def)
  with Cons.IH show ?case
    by (simp add: json_quote_def json_items_comma json_string_body_concat)
qed

lemma join_comma: "join '','' (x # xs) = x @ concat (map (\<lambda>t. CHR '','' # t) xs)"
  by (induction xs arbitrary: x) simp_all

lemma JSON_roundtrip: "JSON_parse (JSON_stringify ts) = Some ts"
proof (cases ts)
  case Nil
  then show ?thesis
    by (simp add: JSON_parse_def JSON_stringify_def skip_ws_def json_ws_def)
next
  case (Cons t us)
  let ?tail = "concat (map (\<lambda>t. CHR '','' # json_quote t) us) @ '']''"
  have s: "JSON_stringify ts = CHR ''['' # CHR 0x22 # concat (map json_escape t) @ CHR 0x22 # ?tail"
    by (simp add: Cons JSON_stringify_def join_comma json_quote_def comp_def)
  have w: "skip_ws ?tail = ?tail"
    by (cases us) (simp_all add: skip_ws_other json_ws_def)
  have i: "json_items ?tail = Some (us, [])"
    using json_items_tail [of us "[]"] by simp
  show ?thesis
    unfolding s JSON_parse_def
    by (simp add: skip_ws_other skip_ws_def [of "[]"] json_ws_def json_string_body_concat w i Cons)
qed

lemma JSON_stringify_nonempty: "JSON_stringify ts \<noteq> []"
  by (simp add: JSON_stringify_def)

lemma parse_terms_stringify: "parse_terms (JSON_stringify ts) = Some ts"
  by (simp add: parse_terms_def JSON_stringify_nonempty JSON_roundtrip)

subsection \<open>Upsert\<close>

lemma row_key_icon_row: "row_key (icon_row i) = icon_key i"
  by (simp add: row_key_def icon_row_def icon_key_def)

lemma insertIcon_alt:
  "insertIcon db i = filter (\<lambda>r. row_key r \<noteq> icon_key i) db @ [icon_row i]"
  by (simp add: insertIcon_def row_key_def icon_key_def)

lemma populate_Nil: "populate [] = []"
  by (simp add: populate_def initDatabase_def)

lemma populate_snoc: "populate (icons @ [i]) = insertIcon (populate icons) i"
  by (simp add: populate_def)




lemma populate_rows: "r \<in> set (populate icons) \<Longrightarrow> \<exists>i\<in>set icons. r = icon_row i"
  by (induction icons arbitrary: r rule: rev_induct)
     (auto simp: populate_Nil populate_snoc insertIcon_alt)

lemma remdups_snoc: "remdups (xs @ [x]) = filter (\<lambda>y. y \<noteq> x) (remdups xs) @ [x]"
  by (induction xs) auto

lemma populate_keys: "map row_key (populate icons) = remdups (map icon_key icons)"
proof (induction icons rule: rev_induct)
  case Nil
  show ?case by (simp add: populate_Nil)
next
  case (snoc x xs)
  have "map row_key (filter (\<lambda>r. row_key r \<noteq> icon_key x) (populate xs))
          = filter (\<lambda>y. y \<noteq> icon_key x) (map row_key (populate xs))"
    by (simp add: filter_map comp_def)
  with snoc show ?case
    by (simp add: populate_snoc insertIcon_alt remdups_snoc row_key_icon_row)
qed

lemma populate_distinct: "distinct (map row_key (populate icons))"
  by (simp add: populate_keys)

subsection \<open>Reading by style\<close>

lemma row_to_icon:
  "map_option (\<lambda>ts. \<lparr>name = row_name (icon_row i), style = style i, body = row_body (icon_row i),
                       width = row_width (icon_row i), height = row_height (icon_row i),
                       viewBox = row_viewBox (icon_row i), unicode = row_unicode (icon_row i),
                       searchTerms = ts\<rparr>)
     (parse_terms (row_searchTerms (icon_row i))) = Some i"
  by (simp add: icon_row_def parse_terms_stringify)

lemma getIconsByStyle_Nil: "getIconsByStyle [] st = Some []"
  by (simp add: getIconsByStyle_def)

lemma getIconsByStyle_Cons:
  "getIconsByStyle (icon_row i # db) st =
     (if style i = st then map_option ((#) i) (getIconsByStyle db st) else getIconsByStyle db st)"
  using row_to_icon [of i] by (auto simp: getIconsByStyle_def icon_row_def)

lemma getIconsByStyle_rows:
  assumes "\<forall>r\<in>set db. \<exists>i. r = icon_row i"
  shows "\<exists>res. getIconsByStyle db st = Some res
           \<and> map icon_row res = filter (\<lambda>r. row_style r = st) db
           \<and> (\<forall>i\<in>set res. style i = st)"
  using assms
proof (induction db)
  case Nil
  show ?case by (simp add: getIconsByStyle_Nil)
next
  case (Cons r db)
  then obtain i where r: "r = icon_row i" by auto
  from Cons obtain res where res: "getIconsByStyle db st = Some res"
      "map icon_row res = filter (\<lambda>r. row_style r = st) db" "\<forall>i\<in>set res. style i = st"
    by auto
  have s: "row_style (icon_row i) = style i"
    by (simp add: icon_row_def)
  show ?case
  proof (cases "style i = st")
    case True
    with res r s show ?thesis
      by (simp add: getIconsByStyle_Cons)
  next
    case False
    with res r s show ?thesis
      by (simp add: getIconsByStyle_Cons)
  qed
qed

lemma icon_row_inj:
  assumes "icon_row i = icon_row j"
  shows "i = j"
proof -
  from assms have "JSON_stringify (searchTerms i) = JSON_stringify (searchTerms j)"
    by (simp add: icon_row_def)
  then have "JSON_parse (JSON_stringify (searchTerms i)) = JSON_parse (JSON_stringify (searchTerms j))"
    by simp
  then have "searchTerms i = searchTerms j"
    by (simp add: JSON_roundtrip)
  with assms show ?thesis
    by (simp add: icon_row_def)
qed

lemma row_fields:
  "row_name (icon_row i) = name i"
  "row_style (icon_row i) = style i"
  "row_searchTerms (icon_row i) = JSON_stringify (searchTerms i)"
  by (simp_all add: icon_row_def)

subsection \<open>The latest write wins\<close>




subsection \<open>Round trip and order\<close>

text \<open>
  Claim C10. A record with integer width and height, inserted into a new store and read
  with \<open>getIconsByStyle\<close> for its style, comes back equal in every field; the list of
  search terms is written as JSON text and parsed back unchanged.
\<close>

theorem store_round_trip:
  assumes "isInteger (width i)" and "isInteger (height i)"
  shows "getIconsByStyle (insertIcon initDatabase i) (style i) = Some [i]
         \<and> JSON_parse (JSON_stringify (searchTerms i)) = Some (searchTerms i)"
proof -
  have "insertIcon initDatabase i = [icon_row i]"
    by (simp add: insertIcon_def initDatabase_def)
  then have "getIconsByStyle (insertIcon initDatabase i) (style i) = Some [i]"
    by (simp add: getIconsByStyle_Cons getIconsByStyle_Nil)
  then show ?thesis
    by (simp add: JSON_roundtrip)
qed

theorem store_round_trip_witness:
  "isInteger (Fin 320) \<and> isInteger (Fin 512)
   \<and> getIconsByStyle
        (insertIcon initDatabase
           \<lparr>name = ''bell'', style = ''solid'', body = ''<path d=\"M0 0\"/>'', width = Fin 320,
            height = Fin 512, viewBox = ''0 0 320 512'', unicode = Some ''f0f3'',
            searchTerms = [''alarm'', ''say \"hi\"'', [CHR 0x01, CHR 0x0A]]\<rparr>) ''solid''
      = Some [\<lparr>name = ''bell'', style = ''solid'', body = ''<path d=\"M0 0\"/>'', width = Fin 320,
               height = Fin 512, viewBox = ''0 0 320 512'', unicode = Some ''f0f3'',
               searchTerms = [''alarm'', ''say \"hi\"'', [CHR 0x01, CHR 0x0A]]\<rparr>]
   \<and> JSON_stringify [''alarm'', ''say \"hi\"'', [CHR 0x01, CHR 0x0A]]
      = ''[\"alarm\",\"say '' @ [CHR 0x5C] @ ''\"hi'' @ [CHR 0x5C] @ ''\"\",\"''
        @ [CHR 0x5C] @ ''u0001'' @ [CHR 0x5C] @ ''n\"]''"
proof -
  let ?i = "\<lparr>name = ''bell'', style = ''solid'', body = ''<path d=\"M0 0\"/>'', width = Fin 320,
            height = Fin 512, viewBox = ''0 0 320 512'', unicode = Some ''f0f3'',
            searchTerms = [''alarm'', ''say \"hi\"'', [CHR 0x01, CHR 0x0A]]\<rparr>"
  have w: "isInteger (width ?i)" and h: "isInteger (height ?i)"
    by (simp_all add: isInteger_def)
  have j: "JSON_stringify [''alarm'', ''say \"hi\"'', [CHR 0x01, CHR 0x0A]]
      = ''[\"alarm\",\"say '' @ [CHR 0x5C] @ ''\"hi'' @ [CHR 0x5C] @ ''\"\",\"''
        @ [CHR 0x5C] @ ''u0001'' @ [CHR 0x5C] @ ''n\"]''"
    by code_simp
  from store_round_trip [OF w h] w h j show ?thesis
    by simp
qed

text \<open>
  Claim C4, as the store behaves. \<open>getIconsByStyle\<close> returns exactly the records of the
  rows whose style is the argument, each once, in the order of the table, which is the
  order of the latest insert of each key; the query has no \<open>ORDER BY\<close>.
\<close>

theorem getIconsByStyle_row_order:
  "\<exists>res. getIconsByStyle (populate icons) st = Some res
      \<and> map icon_row res = filter (\<lambda>r. row_style r = st) (populate icons)
      \<and> (\<forall>i\<in>set res. style i = st)
      \<and> map name res = map fst (filter (\<lambda>k. snd k = st) (remdups (map icon_key icons)))"
proof -
  have "\<forall>r\<in>set (populate icons). \<exists>i. r = icon_row i"
    using populate_rows by blast
  then obtain res where res: "getIconsByStyle (populate icons) st = Some res"
      "map icon_row res = filter (\<lambda>r. row_style r = st) (populate icons)"
      "\<forall>i\<in>set res. style i = st"
    using getIconsByStyle_rows by blast
  have "map name res = map row_name (map icon_row res)"
    by (simp add: icon_row_def comp_def)
  also have "\<dots> = map fst (filter (\<lambda>k. snd k = st) (map row_key (populate icons)))"
    by (simp add: res(2) filter_map comp_def row_key_def)
  finally have "map name res = map fst (filter (\<lambda>k. snd k = st) (remdups (map icon_key icons)))"
    by (simp add: populate_keys)
  with res show ?thesis by blast
qed

theorem getIconsByStyle_row_order_witness:
  "getIconsByStyle (populate [sample_icon ''b'' ''solid'' ''<g/>'', sample_icon ''a'' ''regular'' ''<g/>'',
                              sample_icon ''a'' ''solid'' ''<g/>'', sample_icon ''b'' ''solid'' ''<path/>''])
     ''solid''
   = Some [sample_icon ''a'' ''solid'' ''<g/>'', sample_icon ''b'' ''solid'' ''<path/>'']"
proof -
  let ?icons = "[sample_icon ''b'' ''solid'' ''<g/>'', sample_icon ''a'' ''regular'' ''<g/>'',
                 sample_icon ''a'' ''solid'' ''<g/>'', sample_icon ''b'' ''solid'' ''<path/>'']"
  have p: "populate ?icons = [icon_row (sample_icon ''a'' ''regular'' ''<g/>''),
             icon_row (sample_icon ''a'' ''solid'' ''<g/>''), icon_row (sample_icon ''b'' ''solid'' ''<path/>'')]"
    by (simp add: populate_def initDatabase_def insertIcon_def sample_icon_def icon_row_def)
  from getIconsByStyle_row_order [of ?icons "''solid''"] obtain res where
    "getIconsByStyle (populate ?icons) ''solid'' = Some res"
    "map icon_row res = filter (\<lambda>r. row_style r = ''solid'') (populate ?icons)"
    by blast
  moreover have "getIconsByStyle (populate ?icons) ''solid''
      = Some [sample_icon ''a'' ''solid'' ''<g/>'', sample_icon ''b'' ''solid'' ''<path/>'']"
    unfolding p by (simp add: getIconsByStyle_Cons getIconsByStyle_Nil sample_icon_def)
  ultimately show ?thesis by simp
qed

text \<open>
  Claim C4 as stated fails: two records of one style inserted as \<open>b\<close>, then \<open>a\<close>, come
  back in that order, and in the other order when inserted the other way round.
\<close>

theorem getIconsByStyle_not_sorted_by_name:
  "getIconsByStyle (populate [sample_icon ''b'' ''solid'' ''<g/>'', sample_icon ''a'' ''solid'' ''<g/>''])
       ''solid''
     = Some [sample_icon ''b'' ''solid'' ''<g/>'', sample_icon ''a'' ''solid'' ''<g/>'']
   \<and> \<not> sorted (map name [sample_icon ''b'' ''solid'' ''<g/>'', sample_icon ''a'' ''solid'' ''<g/>''])
   \<and> getIconsByStyle (populate [sample_icon ''a'' ''solid'' ''<g/>'', sample_icon ''b'' ''solid'' ''<g/>''])
       ''solid''
     = Some [sample_icon ''a'' ''solid'' ''<g/>'', sample_icon ''b'' ''solid'' ''<g/>'']"
proof -
  have p: "populate [sample_icon ''b'' ''solid'' ''<g/>'', sample_icon ''a'' ''solid'' ''<g/>'']
        = [icon_row (sample_icon ''b'' ''solid'' ''<g/>''), icon_row (sample_icon ''a'' ''solid'' ''<g/>'')]"
    and q: "populate [sample_icon ''a'' ''solid'' ''<g/>'', sample_icon ''b'' ''solid'' ''<g/>'']
        = [icon_row (sample_icon ''a'' ''solid'' ''<g/>''), icon_row (sample_icon ''b'' ''solid'' ''<g/>'')]"
    by (simp_all add: populate_def initDatabase_def insertIcon_def sample_icon_def icon_row_def)
  have s: "\<not> sorted (map name [sample_icon ''b'' ''solid'' ''<g/>'', sample_icon ''a'' ''solid'' ''<g/>''])"
    by (simp add: sample_icon_def less_eq_char_def)
  show ?thesis
    unfolding p q using s by (simp add: getIconsByStyle_Cons getIconsByStyle_Nil sample_icon_def)
qed

subsection \<open>Search\<close>

lemma like_all: "like ''%'' s"
  by (induction s) simp_all

lemma like_percent: "like (CHR ''%'' # p) s \<longleftrightarrow> (\<exists>k\<le>length s. like p (drop k s))"
proof (induction s)
  case Nil
  show ?case by simp
next
  case (Cons c cs)
  have "(\<exists>k\<le>length (c # cs). like p (drop k (c # cs)))
          \<longleftrightarrow> like p (c # cs) \<or> (\<exists>k\<le>length cs. like p (drop k cs))"
  proof
    assume "\<exists>k\<le>length (c # cs). like p (drop k (c # cs))"
    then obtain k where k: "k \<le> length (c # cs)" "like p (drop k (c # cs))" by blast
    show "like p (c # cs) \<or> (\<exists>k\<le>length cs. like p (drop k cs))"
    proof (cases k)
      case 0
      with k show ?thesis by simp
    next
      case (Suc m)
      with k have "m \<le> length cs \<and> like p (drop m cs)" by simp
      then show ?thesis by blast
    qed
  next
    assume "like p (c # cs) \<or> (\<exists>k\<le>length cs. like p (drop k cs))"
    then show "\<exists>k\<le>length (c # cs). like p (drop k (c # cs))"
    proof
      assume "like p (c # cs)"
      then have "0 \<le> length (c # cs) \<and> like p (drop 0 (c # cs))" by simp
      then show ?thesis by blast
    next
      assume "\<exists>k\<le>length cs. like p (drop k cs)"
      then obtain k where "k \<le> length cs" "like p (drop k cs)" by blast
      then have "Suc k \<le> length (c # cs) \<and> like p (drop (Suc k) (c # cs))" by simp
      then show ?thesis by blast
    qed
  qed
  with Cons show ?case by simp
qed

lemma like_literal:
  assumes "CHR ''%'' \<notin> set q" and "CHR ''_'' \<notin> set q"
  shows "like (q @ ''%'') s \<longleftrightarrow> prefix (map to_lower q) (map to_lower s)"
  using assms
proof (induction q arbitrary: s)
  case Nil
  show ?case by (simp add: like_all)
next
  case (Cons p ps)
  show ?case
  proof (cases s)
    case Nil
    with Cons.prems show ?thesis by auto
  next
    case (Cons c cs)
    with Cons.prems Cons.IH [of cs] show ?thesis by auto
  qed
qed

lemma sublist_drop: "sublist xs ys \<longleftrightarrow> (\<exists>k\<le>length ys. prefix xs (drop k ys))"
proof
  assume "sublist xs ys"
  then obtain ps ss where "ys = ps @ xs @ ss" by (auto simp: sublist_def)
  then have "length ps \<le> length ys \<and> prefix xs (drop (length ps) ys)" by simp
  then show "\<exists>k\<le>length ys. prefix xs (drop k ys)" by blast
next
  assume "\<exists>k\<le>length ys. prefix xs (drop k ys)"
  then obtain k ss where "drop k ys = xs @ ss" by (auto simp: prefix_def)
  then have "ys = take k ys @ xs @ ss" by (metis append_take_drop_id)
  then show "sublist xs ys" unfolding sublist_def by blast
qed

lemma like_contains:
  assumes "CHR ''%'' \<notin> set q" and "CHR ''_'' \<notin> set q"
  shows "like (''%'' @ q @ ''%'') s \<longleftrightarrow> sublist (map to_lower q) (map to_lower s)"
proof -
  have "like (''%'' @ q @ ''%'') s \<longleftrightarrow> (\<exists>k\<le>length s. like (q @ ''%'') (drop k s))"
    using like_percent [of "q @ ''%''" s] by simp
  also have "\<dots> \<longleftrightarrow> (\<exists>k\<le>length s. prefix (map to_lower q) (drop k (map to_lower s)))"
    using like_literal [OF assms] by (simp add: drop_map)
  also have "\<dots> \<longleftrightarrow> sublist (map to_lower q) (map to_lower s)"
    using sublist_drop [of "map to_lower q" "map to_lower s"] by simp
  finally show ?thesis .
qed

lemma rows_to_icons:
  assumes "\<forall>r\<in>set rows. \<exists>i. r = icon_row i"
  shows "\<exists>res. those (map (\<lambda>row. map_option
                      (\<lambda>ts. \<lparr>name = row_name row, style = row_style row, body = row_body row,
                              width = row_width row, height = row_height row,
                              viewBox = row_viewBox row, unicode = row_unicode row,
                              searchTerms = ts\<rparr>)
                      (parse_terms (row_searchTerms row))) rows) = Some res
           \<and> map icon_row res = rows"
  using assms
proof (induction rows)
  case Nil
  show ?case by simp
next
  case (Cons r rows)
  then obtain i where r: "r = icon_row i" by auto
  have "map_option (\<lambda>ts. \<lparr>name = row_name r, style = row_style r, body = row_body r,
                              width = row_width r, height = row_height r,
                              viewBox = row_viewBox r, unicode = row_unicode r,
                              searchTerms = ts\<rparr>)
          (parse_terms (row_searchTerms r)) = Some i"
    using row_to_icon [of i] by (simp add: r icon_row_def)
  with Cons r show ?case
    by auto
qed

lemma like_op_contains:
  assumes "CHR ''%'' \<notin> set q" and "CHR ''_'' \<notin> set q" and "CHR 0x00 \<notin> set q"
  shows "like_op (''%'' @ q @ ''%'') s \<longleftrightarrow> sublist (map to_lower q) (map to_lower (c_string s))"
proof -
  have "takeWhile (\<lambda>c. c \<noteq> CHR 0x00) q = q"
    using assms(3) by (induction q) auto
  then have "c_string (''%'' @ q @ ''%'') = ''%'' @ q @ ''%''"
    by (simp add: c_string_def takeWhile_append)
  then show ?thesis
    using like_contains [OF assms(1,2)] by (simp add: like_op_def)
qed

lemma utf8_length_replicate: "utf8_length (replicate n (CHR ''a'')) = int n"
  by (induction n) (simp_all add: utf8_length_def)

lemma utf8_length_pattern: "utf8_length (''%'' @ q @ ''%'') = utf8_length q + 2"
  by (simp add: utf8_length_def)

text \<open>
  Claim C8, as the query behaves. For a query whose pattern \<open>%query%\<close> has at most
  50000 bytes, \<open>searchIcons\<close> returns exactly the stored records of which the name, or
  the JSON text of the whole list of search terms, matches the pattern under \<open>LIKE\<close>,
  within the given styles when the list is given and not empty, ordered by
  \<open>(name, style)\<close>. For a query with no \<open>%\<close>, no \<open>_\<close> and no NUL the pattern matches
  the texts that contain the query before their first NUL, the letters A to Z in either
  case. For a longer query and no style list the call throws, unless the store is
  empty.
\<close>

theorem searchIcons_like:
  "(utf8_length (''%'' @ query @ ''%'') \<le> SQLITE_MAX_LIKE_PATTERN_LENGTH \<longrightarrow>
     (\<exists>res. searchIcons (populate icons) query styles = Inr res
        \<and> (\<forall>i. i \<in> set res \<longleftrightarrow>
               icon_row i \<in> set (populate icons)
               \<and> (like_op (''%'' @ query @ ''%'') (name i)
                   \<or> like_op (''%'' @ query @ ''%'') (JSON_stringify (searchTerms i)))
               \<and> (case styles of None \<Rightarrow> True | Some ss \<Rightarrow> ss = [] \<or> style i \<in> set ss))
        \<and> sorted (map icon_key res)
        \<and> distinct (map icon_key res)))
   \<and> (CHR ''%'' \<notin> set query \<and> CHR ''_'' \<notin> set query \<and> CHR 0x00 \<notin> set query \<longrightarrow>
        (\<forall>s. like_op (''%'' @ query @ ''%'') s
               \<longleftrightarrow> sublist (map to_lower query) (map to_lower (c_string s))))
   \<and> (SQLITE_MAX_LIKE_PATTERN_LENGTH < utf8_length (''%'' @ query @ ''%'') \<and> populate icons \<noteq> [] \<longrightarrow>
        searchIcons (populate icons) query None = Inl PatternTooComplex)
   \<and> searchIcons (populate []) query styles = Inr []"
proof -
  let ?pat = "''%'' @ query @ ''%''"
  let ?S = "\<lambda>r. case styles of None \<Rightarrow> True | Some ss \<Rightarrow> \<not> 0 < length ss \<or> row_style r \<in> set ss"
  let ?L = "\<lambda>r. like_op ?pat (row_name r) \<or> like_op ?pat (row_searchTerms r)"
  let ?rows = "sort_key (\<lambda>r. (row_name r, row_style r)) (filter ?L (filter ?S (populate icons)))"
  have short: "utf8_length ?pat \<le> SQLITE_MAX_LIKE_PATTERN_LENGTH \<longrightarrow>
     (\<exists>res. searchIcons (populate icons) query styles = Inr res
        \<and> (\<forall>i. i \<in> set res \<longleftrightarrow>
               icon_row i \<in> set (populate icons)
               \<and> (like_op ?pat (name i) \<or> like_op ?pat (JSON_stringify (searchTerms i)))
               \<and> (case styles of None \<Rightarrow> True | Some ss \<Rightarrow> ss = [] \<or> style i \<in> set ss))
        \<and> sorted (map icon_key res)
        \<and> distinct (map icon_key res))"
  proof
    assume len: "utf8_length ?pat \<le> SQLITE_MAX_LIKE_PATTERN_LENGTH"
    have "\<forall>r\<in>set ?rows. \<exists>i. r = icon_row i"
      using populate_rows by fastforce
    then obtain res where res: "those (map (\<lambda>row. map_option
                      (\<lambda>ts. \<lparr>name = row_name row, style = row_style row, body = row_body row,
                              width = row_width row, height = row_height row,
                              viewBox = row_viewBox row, unicode = row_unicode row,
                              searchTerms = ts\<rparr>)
                      (parse_terms (row_searchTerms row))) ?rows) = Some res"
      and rows: "map icon_row res = ?rows"
      using rows_to_icons [of ?rows] by blast
    from len have "\<not> SQLITE_MAX_LIKE_PATTERN_LENGTH < utf8_length ?pat"
      by simp
    then have s: "searchIcons (populate icons) query styles = Inr res"
      unfolding searchIcons_def Let_def using res by simp
    have k: "row_key = (\<lambda>r. (row_name r, row_style r))"
      by (simp add: row_key_def fun_eq_iff)
    have keys: "map icon_key res = map row_key ?rows"
      using rows [symmetric] by (simp add: comp_def row_key_icon_row)
    have member: "\<forall>i. i \<in> set res \<longleftrightarrow>
               icon_row i \<in> set (populate icons)
               \<and> (like_op ?pat (name i) \<or> like_op ?pat (JSON_stringify (searchTerms i)))
               \<and> (case styles of None \<Rightarrow> True | Some ss \<Rightarrow> ss = [] \<or> style i \<in> set ss)"
    proof
      fix i
      have "i \<in> set res \<longleftrightarrow> icon_row i \<in> set (map icon_row res)"
        using icon_row_inj by auto
      also have "\<dots> \<longleftrightarrow> icon_row i \<in> set (populate icons) \<and> ?S (icon_row i) \<and> ?L (icon_row i)"
        by (simp add: rows conj_commute)
      also have "\<dots> \<longleftrightarrow> icon_row i \<in> set (populate icons)
               \<and> (like_op ?pat (name i) \<or> like_op ?pat (JSON_stringify (searchTerms i)))
               \<and> (case styles of None \<Rightarrow> True | Some ss \<Rightarrow> ss = [] \<or> style i \<in> set ss)"
        by (cases styles) (auto simp: row_fields)
      finally show "i \<in> set res \<longleftrightarrow>
               icon_row i \<in> set (populate icons)
               \<and> (like_op ?pat (name i) \<or> like_op ?pat (JSON_stringify (searchTerms i)))
               \<and> (case styles of None \<Rightarrow> True | Some ss \<Rightarrow> ss = [] \<or> style i \<in> set ss)" .
    qed
    have sorted: "sorted (map icon_key res)"
      unfolding keys k by (rule sorted_sort_key)
    have "distinct (map row_key (filter ?S (populate icons)))"
      using populate_distinct by (rule distinct_map_filter)
    then have "distinct (map row_key (filter ?L (filter ?S (populate icons))))"
      by (rule distinct_map_filter)
    then have "distinct (filter ?L (filter ?S (populate icons)))
        \<and> inj_on row_key (set (filter ?L (filter ?S (populate icons))))"
      by (simp only: distinct_map)
    then have "distinct (map row_key ?rows)"
      unfolding k by (simp add: distinct_map)
    then have dist: "distinct (map icon_key res)"
      by (simp add: keys)
    from s member sorted dist show "\<exists>res. searchIcons (populate icons) query styles = Inr res
        \<and> (\<forall>i. i \<in> set res \<longleftrightarrow>
               icon_row i \<in> set (populate icons)
               \<and> (like_op ?pat (name i) \<or> like_op ?pat (JSON_stringify (searchTerms i)))
               \<and> (case styles of None \<Rightarrow> True | Some ss \<Rightarrow> ss = [] \<or> style i \<in> set ss))
        \<and> sorted (map icon_key res)
        \<and> distinct (map icon_key res)"
      by blast
  qed
  have lit: "CHR ''%'' \<notin> set query \<and> CHR ''_'' \<notin> set query \<and> CHR 0x00 \<notin> set query \<longrightarrow>
           (\<forall>s. like_op ?pat s \<longleftrightarrow> sublist (map to_lower query) (map to_lower (c_string s)))"
    using like_op_contains by blast
  have long: "SQLITE_MAX_LIKE_PATTERN_LENGTH < utf8_length ?pat \<and> populate icons \<noteq> [] \<longrightarrow>
        searchIcons (populate icons) query None = Inl PatternTooComplex"
    by (simp add: searchIcons_def)
  have none: "searchIcons (populate []) query styles = Inr []"
    by (simp add: searchIcons_def populate_Nil)
  from short lit long none show ?thesis
    by (intro conjI)
qed

theorem searchIcons_like_witness:
  "searchIcons (populate [sample_icon ''b'' ''solid'' ''<g/>'', sample_icon ''ab'' ''regular'' ''<g/>'',
                          sample_icon ''ab'' ''brands'' ''<g/>'', sample_icon ''c'' ''solid'' ''<path/>''])
       ''B'' (Some [''solid'', ''brands''])
     = Inr [sample_icon ''ab'' ''brands'' ''<g/>'', sample_icon ''b'' ''solid'' ''<g/>'']
   \<and> like_op ''%B%'' ''ab'' \<and> sublist ''b'' ''ab''
   \<and> \<not> like_op ''%b%'' [CHR ''a'', CHR 0x00, CHR ''b'']
   \<and> searchIcons (populate [sample_icon ''b'' ''solid'' ''<g/>'']) (replicate 49999 (CHR ''a'')) None
     = Inl PatternTooComplex
   \<and> (\<exists>res. searchIcons (populate [sample_icon ''b'' ''solid'' ''<g/>'']) (replicate 49998 (CHR ''a'')) None
     = Inr res)"
proof -
  let ?icons = "[sample_icon ''b'' ''solid'' ''<g/>'', sample_icon ''ab'' ''regular'' ''<g/>'',
                 sample_icon ''ab'' ''brands'' ''<g/>'', sample_icon ''c'' ''solid'' ''<path/>'']"
  have e: "searchIcons (populate ?icons) ''B'' (Some [''solid'', ''brands''])
             = Inr [sample_icon ''ab'' ''brands'' ''<g/>'', sample_icon ''b'' ''solid'' ''<g/>'']"
    by code_simp
  have q: "CHR ''%'' \<notin> set ''B'' \<and> CHR ''_'' \<notin> set ''B'' \<and> CHR 0x00 \<notin> set ''B''"
    by simp
  have l: "map to_lower ''B'' = ''b''" "map to_lower (c_string ''ab'') = ''ab''"
    by code_simp+
  have sb: "sublist ''b'' ''ab''"
    by code_simp
  from searchIcons_like [of "''B''" ?icons "Some [''solid'', ''brands'']"] q
  have x: "like_op (''%'' @ ''B'' @ ''%'') ''ab'' \<longleftrightarrow> sublist (map to_lower ''B'') (map to_lower (c_string ''ab''))"
    by blast
  have lk: "like_op ''%B%'' ''ab''"
    using iffD2 [OF x [unfolded l] sb] by (simp only: append_Cons append_Nil)
  have q2: "CHR ''%'' \<notin> set ''b'' \<and> CHR ''_'' \<notin> set ''b'' \<and> CHR 0x00 \<notin> set ''b''"
    by simp
  have l2: "map to_lower ''b'' = ''b''" "map to_lower (c_string [CHR ''a'', CHR 0x00, CHR ''b'']) = ''a''"
    by code_simp+
  have nsb: "\<not> sublist ''b'' ''a''"
    by code_simp
  from searchIcons_like [of "''b''" ?icons None] q2
  have y: "like_op (''%'' @ ''b'' @ ''%'') [CHR ''a'', CHR 0x00, CHR ''b'']
             \<longleftrightarrow> sublist (map to_lower ''b'') (map to_lower (c_string [CHR ''a'', CHR 0x00, CHR ''b'']))"
    by blast
  have nul: "\<not> like_op ''%b%'' [CHR ''a'', CHR 0x00, CHR ''b'']"
    using y [unfolded l2] nsb by (simp only: append_Cons append_Nil simp_thms)
  have ne: "populate [sample_icon ''b'' ''solid'' ''<g/>''] \<noteq> []"
    by (simp add: populate_def initDatabase_def insertIcon_def)
  have "SQLITE_MAX_LIKE_PATTERN_LENGTH < utf8_length (''%'' @ replicate 49999 (CHR ''a'') @ ''%'')"
    unfolding utf8_length_pattern utf8_length_replicate SQLITE_MAX_LIKE_PATTERN_LENGTH_def by simp
  with ne searchIcons_like [of "replicate 49999 (CHR ''a'')" "[sample_icon ''b'' ''solid'' ''<g/>'']" None]
  have long: "searchIcons (populate [sample_icon ''b'' ''solid'' ''<g/>'']) (replicate 49999 (CHR ''a'')) None
     = Inl PatternTooComplex"
    by blast
  have "utf8_length (''%'' @ replicate 49998 (CHR ''a'') @ ''%'') \<le> SQLITE_MAX_LIKE_PATTERN_LENGTH"
    unfolding utf8_length_pattern utf8_length_replicate SQLITE_MAX_LIKE_PATTERN_LENGTH_def by simp
  with searchIcons_like [of "replicate 49998 (CHR ''a'')" "[sample_icon ''b'' ''solid'' ''<g/>'']" None]
  have short: "\<exists>res. searchIcons (populate [sample_icon ''b'' ''solid'' ''<g/>'']) (replicate 49998 (CHR ''a'')) None
     = Inr res"
    by blast
  from e lk sb nul long short show ?thesis
    by (simp only: simp_thms not_False_eq_True)
qed

text \<open>
  Claim C8 as stated fails. The query \<open>[\<close> returns a record with no search term,
  whose name does not contain it: the JSON text of the empty list does. The query \<open>_\<close>
  returns it too: the underscore is a wildcard. And a record whose search term contains
  the query \<open>a"b\<close> is not returned: in the JSON text the quote is written with a
  backslash.
\<close>

theorem searchIcons_not_substring_of_terms:
  "searchIcons (populate [sample_icon ''x'' ''solid'' ''<g/>'']) ''['' None
     = Inr [sample_icon ''x'' ''solid'' ''<g/>'']
   \<and> searchIcons (populate [sample_icon ''x'' ''solid'' ''<g/>'']) ''_'' None
     = Inr [sample_icon ''x'' ''solid'' ''<g/>'']
   \<and> name (sample_icon ''x'' ''solid'' ''<g/>'') = ''x''
   \<and> searchTerms (sample_icon ''x'' ''solid'' ''<g/>'') = []
   \<and> searchIcons (populate [(sample_icon ''x'' ''solid'' ''<g/>'')\<lparr>searchTerms := [''a\"b'']\<rparr>]) ''a\"b'' None
     = Inr []
   \<and> sublist ''a\"b'' (hd (searchTerms ((sample_icon ''x'' ''solid'' ''<g/>'')\<lparr>searchTerms := [''a\"b'']\<rparr>)))"
  by code_simp

section \<open>Properties of the reconciler\<close>

lemma parseSvgFile_body_nonempty: "parseSvgFile text = Some p \<Longrightarrow> ps_body p \<noteq> []"
proof (cases "text")
  case None
  assume "parseSvgFile text = Some p"
  with None show ?thesis by (simp add: parseSvgFile_def parseSvgFile_try_def)
next
  case (Some content)
  assume "parseSvgFile text = Some p"
  with Some show ?thesis by (auto simp: parseSvgFile_Some_iff)
qed

lemma parseKit_files_single:
  "parseKit_files numStr metadata st db [(svgFile, text)] =
     (case parseKit_icon numStr metadata st svgFile text of
        None \<Rightarrow> db
      | Some iconData \<Rightarrow> insertIcon db iconData)"
  by simp

lemma get_property_own: "obj key = Some v \<Longrightarrow> get_property obj key = Own v"
  by (simp add: get_property_def)

text \<open>
  Without an own descriptor for the style the record comes from the file alone, whether
  the style is a name that every object inherits or not.
\<close>

lemma parseKit_icon_no_descriptor:
  assumes "metadata (basename svgFile ''.svg'') = Some entry"
    and "fa_svg entry st = None"
  shows "parseKit_icon numStr metadata st svgFile text =
           (case parseSvgFile text of
              None \<Rightarrow> None
            | Some p \<Rightarrow>
                Some \<lparr>name = basename svgFile ''.svg'', style = st, body = ps_body p,
                       width = ps_width p, height = ps_height p,
                       viewBox = (if ps_viewBox p = []
                                  then ''0 0 '' @ numStr (ps_width p) @ '' '' @ numStr (ps_height p)
                                  else ps_viewBox p),
                       unicode = Some (fa_unicode entry),
                       searchTerms = (case fa_search entry of
                                        None \<Rightarrow> []
                                      | Some s \<Rightarrow> nullish (search_terms s) [])\<rparr>)"
proof -
  have e: "get_property metadata (basename svgFile ''.svg'') = Own entry"
    using assms(1) by (rule get_property_own)
  have d: "get_property (fa_svg entry) st = Inherited \<or> get_property (fa_svg entry) st = Absent"
    using assms(2) by (simp add: get_property_def)
  have b: "\<And>p. parseSvgFile text = Some p \<Longrightarrow> ps_body p \<noteq> []"
    by (rule parseSvgFile_body_nonempty)
  have n: "buildSvgBody inherited_descriptor = None"
    by (simp add: buildSvgBody_def extractBodyFromRawSvg_def inherited_descriptor_def falsy_def)
  have f: "\<And>w h. formatViewBox numStr inherited_descriptor (Some w) (Some h)
                   = ''0 0 '' @ numStr w @ '' '' @ numStr h"
    by (simp add: formatViewBox_def inherited_descriptor_def nullish_def)
  have v: "deriveDimensions (Some inherited_descriptor) = deriveDimensions None"
    by (simp add: deriveDimensions_def inherited_descriptor_def nullish_def)
  from d show ?thesis
  proof
    assume "get_property (fa_svg entry) st = Inherited"
    with e b n f v show ?thesis
      by (cases "parseSvgFile text")
         (simp_all add: parseKit_icon_def Let_def falsy_def nullish_def no_value_def)
  next
    assume "get_property (fa_svg entry) st = Absent"
    with e b show ?thesis
      by (cases "parseSvgFile text")
         (simp_all add: parseKit_icon_def Let_def falsy_def nullish_def no_value_def)
  qed
qed

text \<open>
  Claim C1, as the reconciler behaves. Where the file parses and the metadata entry has
  a descriptor for the style, the stored body, width and height are the file's, and so
  is the view box unless the file's is empty (a \<open>viewBox\<close> attribute of white space
  only): then the stored view box is the descriptor's, printed by \<open>formatViewBox\<close>.
\<close>

theorem parseKit_file_precedence:
  assumes "metadata (basename svgFile ''.svg'') = Some icon"
    and "fa_svg icon st = Some sd"
    and "parseSvgFile text = Some p"
  shows "\<exists>r. parseKit_icon numStr metadata st svgFile text = Some r
           \<and> parseKit_files numStr metadata st db [(svgFile, text)] = insertIcon db r
           \<and> name r = basename svgFile ''.svg'' \<and> style r = st
           \<and> body r = ps_body p \<and> width r = ps_width p \<and> height r = ps_height p
           \<and> (ps_viewBox p \<noteq> [] \<longrightarrow> viewBox r = ps_viewBox p)
           \<and> (ps_viewBox p = [] \<longrightarrow>
                viewBox r = formatViewBox numStr sd (Some (ps_width p)) (Some (ps_height p)))"
proof -
  have b: "ps_body p \<noteq> []"
    using assms(3) by (rule parseSvgFile_body_nonempty)
  have e: "get_property metadata (basename svgFile ''.svg'') = Own icon"
    using assms(1) by (rule get_property_own)
  have d: "get_property (fa_svg icon) st = Own sd"
    using assms(2) by (rule get_property_own)
  define r where "r = the (parseKit_icon numStr metadata st svgFile text)"
  have some: "parseKit_icon numStr metadata st svgFile text = Some r"
    unfolding r_def using e d assms(3) b
    by (simp add: parseKit_icon_def Let_def falsy_def nullish_def no_value_def)
  have fields: "name r = basename svgFile ''.svg'' \<and> style r = st
           \<and> body r = ps_body p \<and> width r = ps_width p \<and> height r = ps_height p"
    unfolding r_def using e d assms(3) b
    by (simp add: parseKit_icon_def Let_def falsy_def nullish_def no_value_def)
  have vb1: "ps_viewBox p \<noteq> [] \<longrightarrow> viewBox r = ps_viewBox p"
    unfolding r_def using e d assms(3) b
    by (simp add: parseKit_icon_def Let_def falsy_def nullish_def no_value_def)
  have vb2: "ps_viewBox p = [] \<longrightarrow>
                viewBox r = formatViewBox numStr sd (Some (ps_width p)) (Some (ps_height p))"
    unfolding r_def using e d assms(3) b
    by (simp add: parseKit_icon_def Let_def falsy_def nullish_def no_value_def)
  have ins: "parseKit_files numStr metadata st db [(svgFile, text)] = insertIcon db r"
    by (simp add: some)
  from some ins fields vb1 vb2 show ?thesis
    by blast
qed

subsection \<open>The body of a descriptor\<close>















subsection \<open>Examples of the reconciler\<close>

lemmas kit_eval = parseKit_icon_def basename_def suffix_to_prefix sample_metadata_def
  sample_descriptor_def falsy_def deriveDimensions_def DEFAULT_ICON_SIZE_def formatViewBox_def
  buildSvgBody_def extractBodyFromRawSvg_def path_element_def Let_def get_property_def
  no_value_def object_prototype_names_def inherited_descriptor_def

theorem parseKit_file_precedence_witness:
  "\<forall>numStr. \<exists>r. parseKit_icon numStr (sample_metadata sample_descriptor) ''solid'' ''bell.svg''
                   (Some ''<svg viewBox=\"0 0 320 512\"><g/></svg>'') = Some r
      \<and> body r = ''<g/>'' \<and> width r = Fin 320 \<and> height r = Fin 512 \<and> viewBox r = ''0 0 320 512''"
proof
  fix numStr :: "jsnum \<Rightarrow> string"
  let ?icon = "\<lparr>fa_search = Some \<lparr>search_terms = Some [''alarm'']\<rparr>,
                fa_svg = [''solid'' \<mapsto> sample_descriptor], fa_unicode = ''f0f3''\<rparr>"
  let ?p = "\<lparr>ps_body = ''<g/>'', ps_width = Fin 320, ps_height = Fin 512, ps_viewBox = ''0 0 320 512''\<rparr>"
  have m: "sample_metadata sample_descriptor (basename ''bell.svg'' ''.svg'') = Some ?icon"
    by (simp add: sample_metadata_def basename_def suffix_to_prefix)
  have d: "fa_svg ?icon ''solid'' = Some sample_descriptor"
    by simp
  have p: "parseSvgFile (Some ''<svg viewBox=\"0 0 320 512\"><g/></svg>'') = Some ?p"
    by (simp add: svg_eval)
  from parseKit_file_precedence [where metadata = "sample_metadata sample_descriptor"
      and svgFile = "''bell.svg''" and numStr = numStr and db = "[]", OF m d p]
  show "\<exists>r. parseKit_icon numStr (sample_metadata sample_descriptor) ''solid'' ''bell.svg''
                   (Some ''<svg viewBox=\"0 0 320 512\"><g/></svg>'') = Some r
      \<and> body r = ''<g/>'' \<and> width r = Fin 320 \<and> height r = Fin 512 \<and> viewBox r = ''0 0 320 512''"
    by auto
qed

text \<open>
  Claim C1 as stated fails for the view box. The file below parses, with a body and an
  empty view box; the stored view box is the descriptor's \<open>0 0 10 10\<close>, in whatever
  way the numbers are printed.
\<close>

theorem parseKit_blank_viewBox_from_descriptor:
  "parseSvgFile (Some ''<svg viewBox=\" \"><g/></svg>'')
     = Some \<lparr>ps_body = ''<g/>'', ps_width = Fin 512, ps_height = Fin 512, ps_viewBox = []\<rparr>
   \<and> (\<forall>numStr. map_option viewBox
          (parseKit_icon numStr (sample_metadata sample_descriptor) ''solid'' ''bell.svg''
             (Some ''<svg viewBox=\" \"><g/></svg>''))
        = Some (numStr (Fin 0) @ '' '' @ numStr (Fin 0) @ '' '' @ numStr (Fin 10) @ '' ''
                  @ numStr (Fin 10)))"
proof -
  have p: "parseSvgFile (Some ''<svg viewBox=\" \"><g/></svg>'')
     = Some \<lparr>ps_body = ''<g/>'', ps_width = Fin 512, ps_height = Fin 512, ps_viewBox = []\<rparr>"
    by (simp add: svg_eval)
  then show ?thesis
    by (simp add: kit_eval nullish_def)
qed



text \<open>
  Claim C6, where the code departs from it. The metadata below has the one entry
  \<open>bell\<close>. The directory \<open>solid\<close> holds \<open>constructor.svg\<close> and \<open>ghost.svg\<close>, both
  well-formed; neither name has a metadata entry. \<open>ghost.svg\<close> is skipped.
  \<open>constructor.svg\<close> is not: \<open>metadata['constructor']\<close> is the function that every
  object inherits, which is truthy, and a row is inserted for it, with the body and the
  dimensions of the file, no code point and no search term.
\<close>

theorem parseKit_inherited_name_not_skipped:
  "(\<forall>numStr. parseKit numStr initDatabase
        \<lparr>icons_json = Some (sample_metadata sample_descriptor),
         svgs_dir = Some [Directory ''solid''
                      (Some [(''constructor.svg'', Some ''<svg viewBox=\"0 0 1 1\"><g/></svg>''),
                             (''ghost.svg'', Some ''<svg viewBox=\"0 0 1 1\"><g/></svg>'')])]\<rparr>
      = Some ([\<lparr>row_name = ''constructor'', row_style = ''solid'', row_body = ''<g/>'',
                 row_width = Fin 1, row_height = Fin 1, row_viewBox = ''0 0 1 1'',
                 row_unicode = None, row_searchTerms = ''[]''\<rparr>],
               Inr (sample_metadata sample_descriptor)))
   \<and> sample_metadata sample_descriptor ''constructor'' = None
   \<and> sample_metadata sample_descriptor ''ghost'' = None"
proof -
  have p: "parseSvgFile (Some ''<svg viewBox=\"0 0 1 1\"><g/></svg>'')
             = Some \<lparr>ps_body = ''<g/>'', ps_width = Fin 1, ps_height = Fin 1, ps_viewBox = ''0 0 1 1''\<rparr>"
    by (simp add: svg_eval)
  have c: "\<forall>numStr. parseKit_icon numStr (sample_metadata sample_descriptor) ''solid'' ''constructor.svg''
               (Some ''<svg viewBox=\"0 0 1 1\"><g/></svg>'')
             = Some \<lparr>name = ''constructor'', style = ''solid'', body = ''<g/>'', width = Fin 1,
                      height = Fin 1, viewBox = ''0 0 1 1'', unicode = None, searchTerms = []\<rparr>"
    by (simp add: p kit_eval nullish_def)
  have g: "\<forall>numStr. parseKit_icon numStr (sample_metadata sample_descriptor) ''solid'' ''ghost.svg''
               (Some ''<svg viewBox=\"0 0 1 1\"><g/></svg>'') = None"
    by (simp add: kit_eval)
  have m: "sample_metadata sample_descriptor ''__proto__'' = None"
      "sample_metadata sample_descriptor ''constructor'' = None"
      "sample_metadata sample_descriptor ''ghost'' = None"
    by (simp_all add: sample_metadata_def)
  have "\<forall>numStr. parseKit numStr initDatabase
        \<lparr>icons_json = Some (sample_metadata sample_descriptor),
         svgs_dir = Some [Directory ''solid''
                      (Some [(''constructor.svg'', Some ''<svg viewBox=\"0 0 1 1\"><g/></svg>''),
                             (''ghost.svg'', Some ''<svg viewBox=\"0 0 1 1\"><g/></svg>'')])]\<rparr>
      = Some ([\<lparr>row_name = ''constructor'', row_style = ''solid'', row_body = ''<g/>'',
                 row_width = Fin 1, row_height = Fin 1, row_viewBox = ''0 0 1 1'',
                 row_unicode = None, row_searchTerms = ''[]''\<rparr>],
               Inr (sample_metadata sample_descriptor))"
    by (simp add: parseKit_def m(1) endsWith_def suffix_to_prefix c g initDatabase_def insertIcon_def
        icon_row_def JSON_stringify_def)
  with m(2,3) show ?thesis
    by (intro conjI)
qed

section \<open>Properties of the export assembler\<close>

text \<open>
  Claim C9, where the code departs from it. The store below holds two records of the
  style \<open>solid\<close>, named \<open>__proto__\<close> and \<open>bell\<close>; \<open>solid\<close> and \<open>brands\<close> are selected.
  One icon set is built, for \<open>solid\<close>, with the prefix \<open>fa-pro-solid\<close>, and \<open>brands\<close>
  is left out, as claimed. But the set has the one icon \<open>bell\<close>: the assignment
  \<open>iconifyIcons['__proto__'] = {...}\<close> adds no property. Its \<open>info.total\<close> is 2 and the
  returned total is 2, the number of rows, one more than the icons emitted.
\<close>

theorem generatePackage_drops_proto_icon:
  "getIconsByStyle_cli
       (populate [sample_icon ''__proto__'' ''solid'' ''<g/>'', sample_icon ''bell'' ''solid'' ''<path/>''])
       ''solid''
     = [\<lparr>sr_name = ''__proto__'', sr_body = ''<g/>'', sr_width = Fin 512, sr_height = Fin 512\<rparr>,
        \<lparr>sr_name = ''bell'', sr_body = ''<path/>'', sr_width = Fin 512, sr_height = Fin 512\<rparr>]
   \<and> generatePackage
       (populate [sample_icon ''__proto__'' ''solid'' ''<g/>'', sample_icon ''bell'' ''solid'' ''<path/>''])
       (sample_config [''solid'', ''brands''])
     = ([''solid'' \<mapsto>
           \<lparr>set_prefix = ''fa-pro-solid'',
            set_icons = [''bell'' \<mapsto>
                           \<lparr>ic_body = ''<path/>'', ic_width = Fin 512, ic_height = Fin 512,
                            ic_left = Fin 0, ic_top = Fin 0, ic_rotate = Fin 0,
                            ic_vFlip = False, ic_hFlip = False\<rparr>],
            set_width = Fin 24, set_height = Fin 24,
            set_info = \<lparr>info_name = Some ''FontAwesome Pro Solid'', info_total = 2,
                        info_version = ''1.0.0'',
                        info_author_name = ''FontAwesome to Iconify Converter'',
                        info_license_title = ''FontAwesome Pro License'',
                        info_license_spdx = ''UNLICENSED''\<rparr>\<rparr>],
        2)"
proof -
  let ?db = "populate [sample_icon ''__proto__'' ''solid'' ''<g/>'', sample_icon ''bell'' ''solid'' ''<path/>'']"
  have db: "?db = [icon_row (sample_icon ''__proto__'' ''solid'' ''<g/>''),
                   icon_row (sample_icon ''bell'' ''solid'' ''<path/>'')]"
    by (simp add: populate_def initDatabase_def insertIcon_def sample_icon_def icon_row_def)
  have solid: "getIconsByStyle_cli ?db ''solid''
     = [\<lparr>sr_name = ''__proto__'', sr_body = ''<g/>'', sr_width = Fin 512, sr_height = Fin 512\<rparr>,
        \<lparr>sr_name = ''bell'', sr_body = ''<path/>'', sr_width = Fin 512, sr_height = Fin 512\<rparr>]"
    and brands: "getIconsByStyle_cli ?db ''brands'' = []"
    unfolding db by (simp_all add: getIconsByStyle_cli_def icon_row_def sample_icon_def)
  have upper: "toUpperCase_char (CHR ''s'') = Some ''S''"
    by code_simp
  have sname: "styleName ''solid'' = Some ''Solid''"
    by (simp add: styleName_def upper)
  have "generatePackage ?db (sample_config [''solid'', ''brands''])
     = ([''solid'' \<mapsto>
           \<lparr>set_prefix = ''fa-pro-solid'',
            set_icons = [''bell'' \<mapsto>
                           \<lparr>ic_body = ''<path/>'', ic_width = Fin 512, ic_height = Fin 512,
                            ic_left = Fin 0, ic_top = Fin 0, ic_rotate = Fin 0,
                            ic_vFlip = False, ic_hFlip = False\<rparr>],
            set_width = Fin 24, set_height = Fin 24,
            set_info = \<lparr>info_name = Some ''FontAwesome Pro Solid'', info_total = 2,
                        info_version = ''1.0.0'',
                        info_author_name = ''FontAwesome to Iconify Converter'',
                        info_license_title = ''FontAwesome Pro License'',
                        info_license_spdx = ''UNLICENSED''\<rparr>\<rparr>],
        2)"
    by (simp add: generatePackage_def sample_config_def solid brands style_set_def sname
        set_property_def numeral_2_eq_2)
  with solid show ?thesis
    by (intro conjI)
qed

end
